theory Spec2Isabelle
  imports Main
begin

section \<open>Outcomes\<close>

text \<open>
  Image.cpp signals failure in three ways: it throws \<open>std::invalid_argument\<close>, it throws
  \<open>std::runtime_error\<close>, or an \<open>NVCV_ASSERT\<close> does not hold. A library call can throw the library's own
  exception; an array read or a division without a guard, and a signed overflow, are
  undefined behaviour. Each is a value here; a function that can fail returns
  \<open>error + 'a\<close> with \<open>Inl\<close> for the failure.
\<close>

datatype error = InvalidArgument | RuntimeError | NvcvException | AssertionFailure | UndefinedBehaviour

section \<open>Machine integers\<close>

text \<open>
  Image.cpp computes with 32-bit and 64-bit signed integers. Values are integers here. A
  conversion to a 32-bit integer keeps the low 32 bits, read as two's complement
  (\<open>narrow32\<close>); a signed multiplication or addition whose result does not fit its type
  is undefined behaviour, which the functions below report as such.
\<close>

definition in32 :: "int \<Rightarrow> bool" where
  "in32 x = (- 2147483648 \<le> x \<and> x \<le> 2147483647)"

definition in64 :: "int \<Rightarrow> bool" where
  "in64 x = (- 9223372036854775808 \<le> x \<and> x \<le> 9223372036854775807)"

definition narrow32 :: "int \<Rightarrow> int" where
  "narrow32 x = (x + 2147483648) mod 4294967296 - 2147483648"

section \<open>Element types and image formats\<close>

text \<open>
  Modelled from the spec: the nvcv type library (DataType, Packing, PackingParams, Swizzle,
  ImageFormat) is not part of the source tree. The spec's data model gives an element type
  the fields data kind, bits per channel, channel count, swizzle and byte order, and an
  image format the fields colour model, swizzle, per-plane packing (at most four) and data
  kind. A packing is identified here with the \<open>PackingParams\<close> that \<open>GetParams\<close> returns for
  it; its channel count is the number of channels its swizzle names.
\<close>

datatype DataKind = UNSIGNED | SIGNED | FLOAT | COMPLEX

datatype ByteOrder = LSB | MSB

datatype Channel = CH_0 | CH_X | CH_Y | CH_Z | CH_W | CH_1

type_synonym Swizzle = "Channel \<times> Channel \<times> Channel \<times> Channel"

definition MakeSwizzle :: "Channel \<Rightarrow> Channel \<Rightarrow> Channel \<Rightarrow> Channel \<Rightarrow> Swizzle" where
  "MakeSwizzle x y z w = (x, y, z, w)"

definition S_0000 :: Swizzle where "S_0000 = (CH_0, CH_0, CH_0, CH_0)"
definition S_X000 :: Swizzle where "S_X000 = (CH_X, CH_0, CH_0, CH_0)"
definition S_XY00 :: Swizzle where "S_XY00 = (CH_X, CH_Y, CH_0, CH_0)"
definition S_XYZ0 :: Swizzle where "S_XYZ0 = (CH_X, CH_Y, CH_Z, CH_0)"
definition S_XYZW :: Swizzle where "S_XYZW = (CH_X, CH_Y, CH_Z, CH_W)"
definition S_XYZ1 :: Swizzle where "S_XYZ1 = (CH_X, CH_Y, CH_Z, CH_1)"

definition isColorChannel :: "Channel \<Rightarrow> bool" where
  "isColorChannel c = (c = CH_X \<or> c = CH_Y \<or> c = CH_Z \<or> c = CH_W)"

definition swizzleNumChannels :: "Swizzle \<Rightarrow> int" where
  "swizzleNumChannels s =
     (case s of (a, b, c, d) \<Rightarrow> int (length (filter isColorChannel [a, b, c, d])))"

record PackingParams =
  pp_byteOrder :: ByteOrder
  pp_swizzle :: Swizzle
  pp_bits :: "int list"

type_synonym Packing = PackingParams

definition Packing_NONE :: Packing where
  "Packing_NONE = \<lparr>pp_byteOrder = MSB, pp_swizzle = S_0000, pp_bits = [0, 0, 0, 0]\<rparr>"

definition GetParams :: "Packing \<Rightarrow> PackingParams" where
  "GetParams p = p"

record DataType =
  dt_dataKind :: DataKind
  dt_packing :: Packing

definition dt_numChannels :: "DataType \<Rightarrow> int" where
  "dt_numChannels dt = swizzleNumChannels (pp_swizzle (dt_packing dt))"

datatype ColorModel = CM_UNDEFINED | CM_YCbCr | CM_RGB | CM_RAW | CM_XYZ

record ImageFormat =
  fmt_colorModel :: ColorModel
  fmt_colorSpec :: nat
  fmt_chromaSubsampling :: nat
  fmt_memLayout :: nat
  fmt_rawPattern :: nat
  fmt_dataKind :: DataKind
  fmt_swizzle :: Swizzle
  fmt_packing :: "Packing list"

type_synonym Size2D = "int \<times> int"

section \<open>Image::Key\<close>

text \<open>
  \<open>Key()\<close> is the key of a wrapper (\<open>m_isWrapper\<close> set), \<open>Key{size, fmt}\<close> the key of an
  allocated image.
\<close>

record Key =
  m_isWrapper :: bool
  m_size :: Size2D
  m_format :: ImageFormat

definition doIsCompatible :: "Key \<Rightarrow> Key \<Rightarrow> bool" where
  "doIsCompatible this that =
     (if m_isWrapper this \<and> m_isWrapper that then True
      else if m_isWrapper this \<or> m_isWrapper that then False
      else (m_size this, m_format this) = (m_size that, m_format that))"

definition doGetHash :: "(Size2D \<Rightarrow> ImageFormat \<Rightarrow> nat) \<Rightarrow> Key \<Rightarrow> nat" where
  "doGetHash ComputeHash this =
     (if m_isWrapper this then 0 else ComputeHash (m_size this) (m_format this))"

section \<open>The library interface\<close>

text \<open>
  The constants and functions of the nvcv library that Image.cpp uses and whose values
  are not visible in the source tree are parameters, collected in one record: the named
  formats, the two packings of the 4:2:2 interleaved formats, the structural comparison
  of formats, the expected plane size of a format, the conversion of a DLPack element
  type, the set of parameter sets for which \<open>MakePacking\<close> finds a packing, and the
  layouts that \<open>TensorLayoutInfoImage::Create\<close> accepts.
\<close>

record DLDataType =
  dl_code :: nat
  dl_bits :: nat
  dl_lanes :: nat

record nvcv_lib =
  FMT_NONE :: ImageFormat
  FMT_U8 :: ImageFormat
  FMT_2F32 :: ImageFormat
  FMT_RGB8 :: ImageFormat
  FMT_RGBA8 :: ImageFormat
  FMT_NV12_ER :: ImageFormat
  X8_Y8__X8_Z8 :: Packing
  Y8_X8__Z8_X8 :: Packing
  HasSameDataLayout :: "ImageFormat \<Rightarrow> ImageFormat \<Rightarrow> bool"
  planeSize :: "ImageFormat \<Rightarrow> Size2D \<Rightarrow> nat \<Rightarrow> Size2D"
  ToNVCVDataType :: "DLDataType \<Rightarrow> error + DataType"
  validPacking :: "PackingParams \<Rightarrow> bool"
  isImageLayout :: "string \<Rightarrow> bool"

definition MakePacking :: "nvcv_lib \<Rightarrow> PackingParams \<Rightarrow> error + Packing" where
  "MakePacking lib pp = (if validPacking lib pp then Inr pp else Inl NvcvException)"

text \<open>
  Modelled from the spec: the accessors of ImageFormat. A plane beyond the format's
  planes has the empty packing.
\<close>

definition planePacking :: "ImageFormat \<Rightarrow> nat \<Rightarrow> Packing" where
  "planePacking fmt p = (if p < length (fmt_packing fmt) then fmt_packing fmt ! p else Packing_NONE)"

definition planeDataType :: "ImageFormat \<Rightarrow> nat \<Rightarrow> DataType" where
  "planeDataType fmt p = \<lparr>dt_dataKind = fmt_dataKind fmt, dt_packing = planePacking fmt p\<rparr>"

definition planeNumChannels :: "ImageFormat \<Rightarrow> nat \<Rightarrow> int" where
  "planeNumChannels fmt p = dt_numChannels (planeDataType fmt p)"

definition fmt_numChannels :: "ImageFormat \<Rightarrow> int" where
  "fmt_numChannels fmt = swizzleNumChannels (fmt_swizzle fmt)"

text \<open>
  Modelled from the spec: the four constructors of ImageFormat that \<open>InferImageFormat\<close>
  calls (for a YCbCr format, a format without colour, a raw format, and any other colour
  model); a part the constructor is not given is 0, and the two modifiers.
\<close>

definition ImageFormat_YCbCr ::
  "nat \<Rightarrow> nat \<Rightarrow> nat \<Rightarrow> DataKind \<Rightarrow> Swizzle \<Rightarrow> Packing \<Rightarrow> Packing \<Rightarrow> Packing \<Rightarrow> Packing \<Rightarrow> ImageFormat" where
  "ImageFormat_YCbCr colorSpec css memLayout dataKind sw p0 p1 p2 p3 =
     \<lparr>fmt_colorModel = CM_YCbCr, fmt_colorSpec = colorSpec, fmt_chromaSubsampling = css,
      fmt_memLayout = memLayout, fmt_rawPattern = 0, fmt_dataKind = dataKind,
      fmt_swizzle = sw, fmt_packing = [p0, p1, p2, p3]\<rparr>"

definition ImageFormat_NonColor ::
  "nat \<Rightarrow> DataKind \<Rightarrow> Swizzle \<Rightarrow> Packing \<Rightarrow> Packing \<Rightarrow> Packing \<Rightarrow> Packing \<Rightarrow> ImageFormat" where
  "ImageFormat_NonColor memLayout dataKind sw p0 p1 p2 p3 =
     \<lparr>fmt_colorModel = CM_UNDEFINED, fmt_colorSpec = 0, fmt_chromaSubsampling = 0,
      fmt_memLayout = memLayout, fmt_rawPattern = 0, fmt_dataKind = dataKind,
      fmt_swizzle = sw, fmt_packing = [p0, p1, p2, p3]\<rparr>"

definition ImageFormat_Raw ::
  "nat \<Rightarrow> nat \<Rightarrow> DataKind \<Rightarrow> Swizzle \<Rightarrow> Packing \<Rightarrow> Packing \<Rightarrow> Packing \<Rightarrow> Packing \<Rightarrow> ImageFormat" where
  "ImageFormat_Raw rawPattern memLayout dataKind sw p0 p1 p2 p3 =
     \<lparr>fmt_colorModel = CM_RAW, fmt_colorSpec = 0, fmt_chromaSubsampling = 0,
      fmt_memLayout = memLayout, fmt_rawPattern = rawPattern, fmt_dataKind = dataKind,
      fmt_swizzle = sw, fmt_packing = [p0, p1, p2, p3]\<rparr>"

definition ImageFormat_Color ::
  "ColorModel \<Rightarrow> nat \<Rightarrow> nat \<Rightarrow> DataKind \<Rightarrow> Swizzle \<Rightarrow> Packing \<Rightarrow> Packing \<Rightarrow> Packing \<Rightarrow> Packing \<Rightarrow> ImageFormat" where
  "ImageFormat_Color model colorSpec memLayout dataKind sw p0 p1 p2 p3 =
     \<lparr>fmt_colorModel = model, fmt_colorSpec = colorSpec, fmt_chromaSubsampling = 0,
      fmt_memLayout = memLayout, fmt_rawPattern = 0, fmt_dataKind = dataKind,
      fmt_swizzle = sw, fmt_packing = [p0, p1, p2, p3]\<rparr>"

definition with_dataKind :: "ImageFormat \<Rightarrow> DataKind \<Rightarrow> ImageFormat" where
  "with_dataKind fmt k = fmt\<lparr>fmt_dataKind := k\<rparr>"

definition swizzleAndPacking ::
  "ImageFormat \<Rightarrow> Swizzle \<Rightarrow> Packing \<Rightarrow> Packing \<Rightarrow> Packing \<Rightarrow> Packing \<Rightarrow> ImageFormat" where
  "swizzleAndPacking fmt sw p0 p1 p2 p3 = fmt\<lparr>fmt_swizzle := sw, fmt_packing := [p0, p1, p2, p3]\<rparr>"

section \<open>Tensor layouts\<close>

text \<open>
  Modelled from the spec: a tensor layout is the string of its axis labels; \<open>find\<close> gives
  the position of a label, or -1. The image view of a shape reads the extent at the
  position of the label N, C, H or W (1 when the label is absent), and a layout is
  channel-last when its last label is C. The view is taken to exist for every shape of
  rank 4 in the two layouts the code builds, and its accessors to return the extents as
  they are; the code narrows them where it stores them in 32-bit fields.
\<close>

type_synonym TensorLayout = string

definition TENSOR_NCHW :: TensorLayout where "TENSOR_NCHW = ''NCHW''"
definition TENSOR_NHWC :: TensorLayout where "TENSOR_NHWC = ''NHWC''"

fun layout_find :: "TensorLayout \<Rightarrow> char \<Rightarrow> int" where
  "layout_find [] c = -1"
| "layout_find (x # xs) c =
     (if x = c then 0 else (let r = layout_find xs c in if r < 0 then -1 else r + 1))"

definition layout_rank :: "TensorLayout \<Rightarrow> int" where
  "layout_rank l = int (length l)"

definition idxSample :: "TensorLayout \<Rightarrow> int" where "idxSample l = layout_find l CHR ''N''"
definition idxChannel :: "TensorLayout \<Rightarrow> int" where "idxChannel l = layout_find l CHR ''C''"
definition idxHeight :: "TensorLayout \<Rightarrow> int" where "idxHeight l = layout_find l CHR ''H''"
definition idxWidth :: "TensorLayout \<Rightarrow> int" where "idxWidth l = layout_find l CHR ''W''"

definition isChannelLast :: "TensorLayout \<Rightarrow> bool" where
  "isChannelLast l = (l \<noteq> [] \<and> last l = CHR ''C'')"

definition extentAt :: "int list \<Rightarrow> int \<Rightarrow> int" where
  "extentAt shape idx = (if idx < 0 then 1 else shape ! nat idx)"

definition numSamples :: "int list \<Rightarrow> TensorLayout \<Rightarrow> int" where
  "numSamples shape l = extentAt shape (idxSample l)"
definition numChannels :: "int list \<Rightarrow> TensorLayout \<Rightarrow> int" where
  "numChannels shape l = extentAt shape (idxChannel l)"
definition numCols :: "int list \<Rightarrow> TensorLayout \<Rightarrow> int" where
  "numCols shape l = extentAt shape (idxWidth l)"
definition numRows :: "int list \<Rightarrow> TensorLayout \<Rightarrow> int" where
  "numRows shape l = extentAt shape (idxHeight l)"

section \<open>ExtractBufferImageInfo\<close>

text \<open>
  A DLPack tensor: \<open>t_shape\<close> and \<open>t_strides\<close> hold \<open>t_ndim\<close> entries each, 64-bit
  values, the strides counted in elements. In the record of a buffer, \<open>numPlanes\<close>,
  \<open>numChannels\<close> and the two parts of \<open>size\<close> are 32-bit integers, \<open>planeStride\<close> and
  \<open>rowStride\<close> 64-bit integers.
\<close>

record DLDevice =
  device_type :: nat
  device_id :: int

record DLTensor =
  t_data :: int
  t_device :: DLDevice
  t_ndim :: int
  t_dtype :: DLDataType
  t_shape :: "int list"
  t_strides :: "int list"

record BufferImageInfo =
  b_numPlanes :: int
  b_size :: Size2D
  b_numChannels :: int
  b_isChannelLast :: bool
  b_planeStride :: int
  b_rowStride :: int
  b_dtype :: DataType
  b_data :: int

definition elemStrideBytes :: "DLTensor \<Rightarrow> int" where
  "elemStrideBytes tensor =
     (int (dl_bits (t_dtype tensor)) * int (dl_lanes (t_dtype tensor)) + 7) div 8"

text \<open>
  The products that the \<open>switch (tensor.ndim)\<close> forms in 64-bit arithmetic: one of them
  does not fit.
\<close>

definition shapeOverflow :: "DLTensor \<Rightarrow> bool" where
  "shapeOverflow tensor =
     (let e = elemStrideBytes tensor; n = t_ndim tensor;
          sh = t_shape tensor; st = t_strides tensor in
      if n = 1 then \<not> in64 (st ! 0 * e)
      else if n = 2 then
        \<not> (in64 (sh ! 0 * st ! 0) \<and> in64 (sh ! 0 * st ! 0 * e) \<and>
           in64 (st ! 0 * e) \<and> in64 (st ! 1 * e))
      else if n = 3 then
        \<not> (in64 (st ! nat (n - 3) * e) \<and> in64 (st ! nat (n - 2) * e) \<and>
           in64 (st ! nat (n - 1) * e) \<and> in64 (sh ! nat (n - 3) * (st ! nat (n - 3) * e)))
      else if n = 4 then
        \<not> (in64 (st ! nat (n - 3) * e) \<and> in64 (st ! nat (n - 2) * e) \<and>
           in64 (st ! nat (n - 1) * e))
      else False)"

text \<open>
  The \<open>switch (tensor.ndim)\<close> of the loop body: the shape, the byte strides and the layout
  of the buffer seen as a rank-4 tensor. \<open>p\<close> is the index of the buffer in the list.
\<close>

definition extractShape ::
  "nvcv_lib \<Rightarrow> ImageFormat \<Rightarrow> nat \<Rightarrow> DLTensor \<Rightarrow> error + (int list \<times> int list \<times> TensorLayout)" where
  "extractShape lib fmt p tensor =
     (let e = elemStrideBytes tensor; n = t_ndim tensor;
          sh = t_shape tensor; st = t_strides tensor in
      if shapeOverflow tensor then Inl UndefinedBehaviour
      else if n = 1 then
        (let s0 = st ! 0 * e in
         Inr ([1, 1, 1, sh ! 0], [s0, s0, s0, s0], TENSOR_NCHW))
      else if n = 2 then
        (let s0 = sh ! 0 * st ! 0 * e in
         Inr ([1, 1, sh ! 0, sh ! 1], [s0, s0, st ! 0 * e, st ! 1 * e], TENSOR_NCHW))
      else if n = 3 \<or> n = 4 then
        (let shape0 = (if n = 3 then 1 else sh ! nat (n - 4));
             shape1 = sh ! nat (n - 3);
             shape2 = sh ! nat (n - 2);
             shape3 = sh ! nat (n - 1);
             layout = (if fmt \<noteq> FMT_NONE lib
                       then (if planeNumChannels fmt p = shape3 then TENSOR_NHWC else TENSOR_NCHW)
                       else (if shape3 \<le> 4 then TENSOR_NHWC else TENSOR_NCHW));
             strides1 = st ! nat (n - 3) * e;
             strides2 = st ! nat (n - 2) * e;
             strides3 = st ! nat (n - 1) * e;
             strides0 = (if n = 3 then shape1 * strides1 else st ! nat (n - 4))
         in Inr ([shape0, shape1, shape2, shape3], [strides0, strides1, strides2, strides3], layout))
      else Inl InvalidArgument)"

text \<open>
  The rest of the loop body up to the record of the buffer. The extents are narrowed to
  32 bits where they are stored in the record.
\<close>

definition extractBuffer ::
  "nvcv_lib \<Rightarrow> ImageFormat \<Rightarrow> nat \<Rightarrow> DLTensor \<Rightarrow> error + BufferImageInfo" where
  "extractBuffer lib fmt p tensor =
     (case extractShape lib fmt p tensor of
        Inl err \<Rightarrow> Inl err
      | Inr (shape, strides, layout) \<Rightarrow>
          if strides ! 0 \<le> 0 \<or> strides ! 1 \<le> 0 \<or> strides ! 2 \<le> 0 then Inl InvalidArgument
          else if layout_rank layout \<noteq> 4 then Inl AssertionFailure
          else if strides ! 3 \<noteq> elemStrideBytes tensor then Inl InvalidArgument
          else if \<not> in64 (elemStrideBytes tensor * numCols shape layout) then Inl UndefinedBehaviour
          else
            (let packedRowStride = elemStrideBytes tensor * numCols shape layout;
                 rowStride = strides ! nat (idxHeight layout) in
             if \<not> isChannelLast layout \<and> rowStride \<noteq> packedRowStride then Inl InvalidArgument
             else
               (case ToNVCVDataType lib (t_dtype tensor) of
                  Inl err \<Rightarrow> Inl err
                | Inr dtype \<Rightarrow>
                    Inr \<lparr>b_numPlanes = narrow32 (if isChannelLast layout then numSamples shape layout
                                                 else numChannels shape layout),
                         b_size = (narrow32 (numCols shape layout), narrow32 (numRows shape layout)),
                         b_numChannels = narrow32 (numChannels shape layout),
                         b_isChannelLast = isChannelLast layout,
                         b_planeStride = strides ! nat (if isChannelLast layout then idxSample layout
                                                        else idxChannel layout),
                         b_rowStride = strides ! nat (idxHeight layout),
                         b_dtype = dtype,
                         b_data = t_data tensor\<rparr>)))"

text \<open>
  The loop over the buffers, with the buffer index and the running channel count, a
  32-bit integer.
\<close>

fun extractLoop ::
  "nvcv_lib \<Rightarrow> ImageFormat \<Rightarrow> nat \<Rightarrow> int \<Rightarrow> DLTensor list \<Rightarrow> error + BufferImageInfo list" where
  "extractLoop lib fmt p curChannel [] = Inr []"
| "extractLoop lib fmt p curChannel (tensor # rest) =
     (case extractBuffer lib fmt p tensor of
        Inl err \<Rightarrow> Inl err
      | Inr bufInfo \<Rightarrow>
          (let cur = curChannel + b_numPlanes bufInfo * b_numChannels bufInfo in
           if \<not> in32 (b_numPlanes bufInfo * b_numChannels bufInfo) \<or> \<not> in32 cur
           then Inl UndefinedBehaviour
           else if cur > 4 then Inl InvalidArgument
           else if \<not> (b_numPlanes bufInfo \<le> 4 \<and> b_numChannels bufInfo \<le> 4) then Inl AssertionFailure
           else
             (case extractLoop lib fmt (Suc p) cur rest of
                Inl err \<Rightarrow> Inl err
              | Inr infos \<Rightarrow> Inr (bufInfo # infos))))"

definition ExtractBufferImageInfo ::
  "nvcv_lib \<Rightarrow> DLTensor list \<Rightarrow> ImageFormat \<Rightarrow> error + BufferImageInfo list" where
  "ExtractBufferImageInfo lib tensorList fmt = extractLoop lib fmt 0 0 tensorList"

section \<open>MakePackedType\<close>

text \<open>The loop \<open>for (i = 1; i < numChannels; ++i) pp.bits[i] = pp.bits[0]\<close>.\<close>

definition fillBits :: "int list \<Rightarrow> int \<Rightarrow> int list" where
  "fillBits bits numCh = fold (\<lambda>i bs. bs[i := bs ! 0]) [1 ..< nat numCh] bits"

definition MakePackedType :: "nvcv_lib \<Rightarrow> DataType \<Rightarrow> int \<Rightarrow> error + DataType" where
  "MakePackedType lib dtype numCh =
     (if dt_numChannels dtype = numCh then Inr dtype
      else if \<not> (2 \<le> numCh \<and> numCh \<le> 4) then Inl AssertionFailure
      else
        (let pp = GetParams (dt_packing dtype);
             pp1 = pp\<lparr>pp_swizzle := (if numCh = 2 then S_XY00
                                      else if numCh = 3 then S_XYZ0 else S_XYZW)\<rparr>;
             pp2 = pp1\<lparr>pp_byteOrder := MSB\<rparr>;
             pp3 = pp2\<lparr>pp_bits := fillBits (pp_bits pp2) numCh\<rparr>
         in case MakePacking lib pp3 of
              Inl err \<Rightarrow> Inl err
            | Inr newPacking \<Rightarrow> Inr \<lparr>dt_dataKind = dt_dataKind dtype, dt_packing = newPacking\<rparr>))"

section \<open>InferImageFormat\<close>

text \<open>
  The loop over the plane types: it stores each packing, adds up the channels, and throws
  at the first plane whose data kind is not that of plane 0.
\<close>

fun inferLoop ::
  "DataType list \<Rightarrow> nat \<Rightarrow> Packing list \<Rightarrow> int \<Rightarrow> DataType list \<Rightarrow> error + (Packing list \<times> int)" where
  "inferLoop planePixTypes p packing numCh [] = Inr (packing, numCh)"
| "inferLoop planePixTypes p packing numCh (t # ts) =
     (if dt_dataKind t \<noteq> dt_dataKind (planePixTypes ! 0) then Inl InvalidArgument
      else inferLoop planePixTypes (Suc p) (packing[p := dt_packing t]) (numCh + dt_numChannels t) ts)"

definition InferImageFormat :: "nvcv_lib \<Rightarrow> DataType list \<Rightarrow> error + ImageFormat" where
  "InferImageFormat lib planePixTypes =
     (if planePixTypes = [] then Inr (FMT_NONE lib)
      else if \<not> length planePixTypes \<le> 4 then Inl AssertionFailure
      else
        (case inferLoop planePixTypes 0 [Packing_NONE, Packing_NONE, Packing_NONE, Packing_NONE] 0 planePixTypes of
           Inl err \<Rightarrow> Inl err
         | Inr (packing, numCh) \<Rightarrow>
             (let dataKind = dt_dataKind (planePixTypes ! 0);
                  numPlanes = int (length planePixTypes) in
              if numPlanes = 1 \<or> numCh = numPlanes then
                (if \<not> numCh \<le> 4 then Inl AssertionFailure
                 else if numCh < 1 then Inl UndefinedBehaviour
                 else
                   (let baseFormat = [FMT_U8 lib, FMT_2F32 lib, FMT_RGB8 lib, FMT_RGBA8 lib] ! nat (numCh - 1);
                        model = fmt_colorModel baseFormat in
                    case model of
                      CM_YCbCr \<Rightarrow>
                        Inr (ImageFormat_YCbCr (fmt_colorSpec baseFormat) (fmt_chromaSubsampling baseFormat)
                               (fmt_memLayout baseFormat) dataKind (fmt_swizzle baseFormat)
                               (packing ! 0) (packing ! 1) (packing ! 2) (packing ! 3))
                    | CM_UNDEFINED \<Rightarrow>
                        Inr (ImageFormat_NonColor (fmt_memLayout baseFormat) dataKind (fmt_swizzle baseFormat)
                               (packing ! 0) (packing ! 1) (packing ! 2) (packing ! 3))
                    | CM_RAW \<Rightarrow>
                        Inr (ImageFormat_Raw (fmt_rawPattern baseFormat) (fmt_memLayout baseFormat) dataKind
                               (fmt_swizzle baseFormat)
                               (packing ! 0) (packing ! 1) (packing ! 2) (packing ! 3))
                    | _ \<Rightarrow>
                        Inr (ImageFormat_Color model (fmt_colorSpec baseFormat) (fmt_memLayout baseFormat)
                               dataKind (fmt_swizzle baseFormat)
                               (packing ! 0) (packing ! 1) (packing ! 2) (packing ! 3))))
              else if numPlanes = 2 \<and> numCh = 3 then
                Inr (swizzleAndPacking (with_dataKind (FMT_NV12_ER lib) dataKind) S_XYZ0
                       (packing ! 0) (packing ! 1) (packing ! 2) (packing ! 3))
              else
                (let sw = MakeSwizzle (if numCh \<ge> 1 then CH_X else CH_0)
                                      (if numCh \<ge> 2 then CH_Y else CH_0)
                                      (if numCh \<ge> 3 then CH_Z else CH_0)
                                      (if numCh \<ge> 4 then CH_W else CH_0) in
                 Inr (swizzleAndPacking (with_dataKind (FMT_U8 lib) dataKind) sw
                        (packing ! 0) (packing ! 1) (packing ! 2) (packing ! 3))))))"

section \<open>FillNVCVImageBufferStrided\<close>

text \<open>
  Modelled from the spec: a plane descriptor has a 32-bit width and height, a 64-bit row
  stride and a base address.
\<close>

record ImagePlaneStrided =
  pl_width :: int
  pl_height :: int
  pl_rowStride :: int
  pl_basePtr :: int

text \<open>
  The image data: the format and the planes in use (\<open>numPlanes\<close> is the length of the
  list; the unused entries of the fixed array are left out).
\<close>

record ImageData =
  img_format :: ImageFormat
  img_planes :: "ImagePlaneStrided list"

text \<open>
  The inner loop over the planes of one buffer; \<open>ps\<close> are the values of \<open>p\<close> still to
  run, \<open>curPlane\<close> the index of the next plane of the image.
\<close>

fun fillBufferPlanes ::
  "nvcv_lib \<Rightarrow> BufferImageInfo \<Rightarrow> nat list \<Rightarrow> nat \<Rightarrow> error + (ImagePlaneStrided \<times> DataType) list" where
  "fillBufferPlanes lib b [] curPlane = Inr []"
| "fillBufferPlanes lib b (p # ps) curPlane =
     (if \<not> curPlane \<le> 4 then Inl AssertionFailure
      else if \<not> in64 (b_planeStride b * int p) then Inl UndefinedBehaviour
      else
        (case MakePackedType lib (b_dtype b) (if b_isChannelLast b then b_numChannels b else 1) of
           Inl err \<Rightarrow> Inl err
         | Inr dt \<Rightarrow>
             (case fillBufferPlanes lib b ps (Suc curPlane) of
                Inl err \<Rightarrow> Inl err
              | Inr rest \<Rightarrow>
                  Inr ((\<lparr>pl_width = fst (b_size b), pl_height = snd (b_size b),
                         pl_rowStride = b_rowStride b,
                         pl_basePtr = b_data b + b_planeStride b * int p\<rparr>, dt) # rest))))"

text \<open>The outer loop over the buffers.\<close>

fun fillPlanes ::
  "nvcv_lib \<Rightarrow> BufferImageInfo list \<Rightarrow> nat \<Rightarrow> error + (ImagePlaneStrided \<times> DataType) list" where
  "fillPlanes lib [] curPlane = Inr []"
| "fillPlanes lib (b # bs) curPlane =
     (case fillBufferPlanes lib b [0 ..< nat (b_numPlanes b)] curPlane of
        Inl err \<Rightarrow> Inl err
      | Inr here \<Rightarrow>
          (case fillPlanes lib bs (curPlane + length here) of
             Inl err \<Rightarrow> Inl err
           | Inr rest \<Rightarrow> Inr (here @ rest)))"

text \<open>
  The first half of the function: the planes and their element types, up to the check
  that there is a plane.
\<close>

definition gatherPlanes ::
  "nvcv_lib \<Rightarrow> DLTensor list \<Rightarrow> ImageFormat \<Rightarrow> error + (ImagePlaneStrided list \<times> DataType list)" where
  "gatherPlanes lib infos fmt =
     (case ExtractBufferImageInfo lib infos fmt of
        Inl err \<Rightarrow> Inl err
      | Inr bufferInfoList \<Rightarrow>
          (case fillPlanes lib bufferInfoList 0 of
             Inl err \<Rightarrow> Inl err
           | Inr pts \<Rightarrow>
               if length pts = 0 then Inl InvalidArgument
               else Inr (map fst pts, map snd pts)))"

text \<open>The final loop: a plane whose size is not the one the format expects.\<close>

definition planeSizeMismatch ::
  "nvcv_lib \<Rightarrow> ImageFormat \<Rightarrow> ImagePlaneStrided list \<Rightarrow> nat \<Rightarrow> bool" where
  "planeSizeMismatch lib finalFormat planes p =
     (let imgSize = (pl_width (planes ! 0), pl_height (planes ! 0));
          goldSize = planeSize lib finalFormat imgSize p;
          plSize = (pl_width (planes ! p), pl_height (planes ! p)) in
      fst plSize \<noteq> fst goldSize \<or> snd plSize \<noteq> snd goldSize)"

definition FillNVCVImageBufferStrided ::
  "nvcv_lib \<Rightarrow> DLTensor list \<Rightarrow> ImageFormat \<Rightarrow> error + ImageData" where
  "FillNVCVImageBufferStrided lib infos fmt =
     (case gatherPlanes lib infos fmt of
        Inl err \<Rightarrow> Inl err
      | Inr (planes, planeDataTypes) \<Rightarrow>
          (case InferImageFormat lib planeDataTypes of
             Inl err \<Rightarrow> Inl err
           | Inr inferredFormat \<Rightarrow>
               if fmt \<noteq> FMT_NONE lib \<and> \<not> HasSameDataLayout lib fmt inferredFormat
               then Inl InvalidArgument
               else
                 (let finalFormat = (if fmt \<noteq> FMT_NONE lib then fmt else inferredFormat) in
                  if list_ex (planeSizeMismatch lib finalFormat planes) [0 ..< length planes]
                  then Inl InvalidArgument
                  else Inr \<lparr>img_format = finalFormat, img_planes = planes\<rparr>)))"

section \<open>The conditions of the specification\<close>



text \<open>
  The index, in the image, of the first plane of the buffer with index \<open>p\<close>: the number
  of planes of the buffers before it.
\<close>

definition firstPlane :: "BufferImageInfo list \<Rightarrow> nat \<Rightarrow> nat" where
  "firstPlane infos p = sum_list (map (\<lambda>b. nat (b_numPlanes b)) (take p infos))"

text \<open>
  The specification's words for format inference: the planes share one data kind, the
  total channel count, the per-plane packings (the empty packing for a plane that is not
  there), and the base format chosen by the total channel count.
\<close>

definition sameKind :: "DataType list \<Rightarrow> bool" where
  "sameKind ts = list_all (\<lambda>t. dt_dataKind t = dt_dataKind (ts ! 0)) ts"

definition totalChannels :: "DataType list \<Rightarrow> int" where
  "totalChannels ts = sum_list (map dt_numChannels ts)"

definition planePackings :: "DataType list \<Rightarrow> Packing list" where
  "planePackings ts =
     map dt_packing ts @ drop (length ts) [Packing_NONE, Packing_NONE, Packing_NONE, Packing_NONE]"

definition spec_baseFormat :: "nvcv_lib \<Rightarrow> int \<Rightarrow> ImageFormat" where
  "spec_baseFormat lib n =
     (if n = 1 then FMT_U8 lib else if n = 2 then FMT_2F32 lib
      else if n = 3 then FMT_RGB8 lib else FMT_RGBA8 lib)"

text \<open>A result is a thrown exception (and not a failed assertion or an unguarded read).\<close>

definition throws :: "error + 'a \<Rightarrow> bool" where
  "throws r = (r = Inl InvalidArgument \<or> r = Inl RuntimeError \<or> r = Inl NvcvException)"

section \<open>A reference instance of the library\<close>

text \<open>
  Modelled from the spec: one instance of the library interface, on which the definitions
  are evaluated at concrete inputs. Formats have the same data layout when they agree in
  channel count, per-plane packing and data kind; a plane after the first has half the
  size (rounded up) when the chroma layout is 4:2:0; a DLPack element type with 1 to 4
  lanes becomes an element type with that many channels of the given width. The theorems
  below hold for every instance of the interface, except those on the element types of
  ingested buffers and on the round trip of export and ingestion, which are about the
  conversion of element types and are stated for this instance.
\<close>

definition P_X8 :: Packing where
  "P_X8 = \<lparr>pp_byteOrder = MSB, pp_swizzle = S_X000, pp_bits = [8, 0, 0, 0]\<rparr>"
definition P_X8_Y8 :: Packing where
  "P_X8_Y8 = \<lparr>pp_byteOrder = MSB, pp_swizzle = S_XY00, pp_bits = [8, 8, 0, 0]\<rparr>"
definition P_X8_Y8_Z8 :: Packing where
  "P_X8_Y8_Z8 = \<lparr>pp_byteOrder = MSB, pp_swizzle = S_XYZ0, pp_bits = [8, 8, 8, 0]\<rparr>"
definition P_X8_Y8_Z8_W8 :: Packing where
  "P_X8_Y8_Z8_W8 = \<lparr>pp_byteOrder = MSB, pp_swizzle = S_XYZW, pp_bits = [8, 8, 8, 8]\<rparr>"
definition P_X32_Y32 :: Packing where
  "P_X32_Y32 = \<lparr>pp_byteOrder = MSB, pp_swizzle = S_XY00, pp_bits = [32, 32, 0, 0]\<rparr>"

text \<open>
  Modelled from the spec: the conversion of the element type of a buffer, given by bits,
  lanes and kind, to an element type (\<open>ToNVCVDataType\<close> is not in the source tree). The
  kinds are numbered as DLPack does: 0 signed, 1 unsigned, 2 float, 5 complex. The
  result has one channel per lane, in the order X, Y, Z, W, each as wide as \<open>bits\<close> says,
  and the byte order MSB.
\<close>

definition ref_ToNVCVDataType :: "DLDataType \<Rightarrow> error + DataType" where
  "ref_ToNVCVDataType d =
     (if dl_lanes d < 1 \<or> 4 < dl_lanes d \<or> dl_code d \<notin> {0, 1, 2, 5} then Inl InvalidArgument
      else Inr \<lparr>dt_dataKind = (if dl_code d = 0 then SIGNED
                               else if dl_code d = 1 then UNSIGNED
                               else if dl_code d = 5 then COMPLEX else FLOAT),
                dt_packing = \<lparr>pp_byteOrder = MSB,
                   pp_swizzle = (if dl_lanes d = 1 then S_X000 else if dl_lanes d = 2 then S_XY00
                                 else if dl_lanes d = 3 then S_XYZ0 else S_XYZW),
                   pp_bits = take (dl_lanes d)
                               [int (dl_bits d), int (dl_bits d), int (dl_bits d), int (dl_bits d)]
                             @ drop (dl_lanes d) [0, 0, 0, 0]\<rparr>\<rparr>)"

definition ref_HasSameDataLayout :: "ImageFormat \<Rightarrow> ImageFormat \<Rightarrow> bool" where
  "ref_HasSameDataLayout a b =
     (fmt_numChannels a = fmt_numChannels b \<and> fmt_packing a = fmt_packing b \<and>
      fmt_dataKind a = fmt_dataKind b)"

definition ref_planeSize :: "ImageFormat \<Rightarrow> Size2D \<Rightarrow> nat \<Rightarrow> Size2D" where
  "ref_planeSize fmt imgSize p =
     (if p = 0 \<or> fmt_chromaSubsampling fmt \<noteq> 420 then imgSize
      else ((fst imgSize + 1) div 2, (snd imgSize + 1) div 2))"

definition ref_lib :: nvcv_lib where
  "ref_lib =
     \<lparr>FMT_NONE = ImageFormat_NonColor 0 UNSIGNED S_0000 Packing_NONE Packing_NONE Packing_NONE Packing_NONE,
      FMT_U8 = ImageFormat_NonColor 0 UNSIGNED S_X000 P_X8 Packing_NONE Packing_NONE Packing_NONE,
      FMT_2F32 = ImageFormat_NonColor 0 FLOAT S_XY00 P_X32_Y32 Packing_NONE Packing_NONE Packing_NONE,
      FMT_RGB8 = ImageFormat_Color CM_RGB 0 0 UNSIGNED S_XYZ1 P_X8_Y8_Z8 Packing_NONE Packing_NONE Packing_NONE,
      FMT_RGBA8 = ImageFormat_Color CM_RGB 0 0 UNSIGNED S_XYZW P_X8_Y8_Z8_W8 Packing_NONE Packing_NONE Packing_NONE,
      FMT_NV12_ER = ImageFormat_YCbCr 1 420 0 UNSIGNED S_XYZ0 P_X8 P_X8_Y8 Packing_NONE Packing_NONE,
      X8_Y8__X8_Z8 = \<lparr>pp_byteOrder = MSB, pp_swizzle = S_XYZ0, pp_bits = [8, 8, 8, 8]\<rparr>,
      Y8_X8__Z8_X8 = \<lparr>pp_byteOrder = LSB, pp_swizzle = S_XYZ0, pp_bits = [8, 8, 8, 8]\<rparr>,
      HasSameDataLayout = ref_HasSameDataLayout,
      planeSize = ref_planeSize,
      ToNVCVDataType = ref_ToNVCVDataType,
      validPacking = (\<lambda>pp. length (pp_bits pp) = 4),
      isImageLayout = (\<lambda>l. CHR ''W'' \<in> set l)\<rparr>"

text \<open>Concrete inputs: element types, a device, tensors of 8-bit elements, keys.\<close>

definition TYPE_U8 :: DataType where
  "TYPE_U8 = \<lparr>dt_dataKind = UNSIGNED, dt_packing = P_X8\<rparr>"
definition TYPE_2U8 :: DataType where
  "TYPE_2U8 = \<lparr>dt_dataKind = UNSIGNED, dt_packing = P_X8_Y8\<rparr>"
definition TYPE_3U8 :: DataType where
  "TYPE_3U8 = \<lparr>dt_dataKind = UNSIGNED, dt_packing = P_X8_Y8_Z8\<rparr>"
definition TYPE_S8 :: DataType where
  "TYPE_S8 = \<lparr>dt_dataKind = SIGNED, dt_packing = P_X8\<rparr>"

text \<open>The element type with the empty packing: it has no channel.\<close>

definition TYPE_NONE :: DataType where
  "TYPE_NONE = \<lparr>dt_dataKind = UNSIGNED, dt_packing = Packing_NONE\<rparr>"

definition dl_uint8 :: DLDataType where
  "dl_uint8 = \<lparr>dl_code = 1, dl_bits = 8, dl_lanes = 1\<rparr>"

definition cuda0 :: DLDevice where
  "cuda0 = \<lparr>device_type = 2, device_id = 0\<rparr>"

definition tensorHWC :: "int \<Rightarrow> int \<Rightarrow> int \<Rightarrow> int \<Rightarrow> int \<Rightarrow> DLTensor" where
  "tensorHWC ptr h w c rowStride =
     \<lparr>t_data = ptr, t_device = cuda0, t_ndim = 3, t_dtype = dl_uint8,
      t_shape = [h, w, c], t_strides = [rowStride, c, 1]\<rparr>"

definition Key_wrapper :: Key where
  "Key_wrapper = \<lparr>m_isWrapper = True, m_size = (0, 0), m_format = FMT_NONE ref_lib\<rparr>"

definition Key_sized :: "Size2D \<Rightarrow> ImageFormat \<Rightarrow> Key" where
  "Key_sized sz fmt = \<lparr>m_isWrapper = False, m_size = sz, m_format = fmt\<rparr>"

text \<open>The specification's final format: the declared one if given, else the inferred one.\<close>

definition finalFormatOf :: "nvcv_lib \<Rightarrow> ImageFormat \<Rightarrow> ImageFormat \<Rightarrow> ImageFormat" where
  "finalFormatOf lib fmt inferred = (if fmt \<noteq> FMT_NONE lib then fmt else inferred)"

section \<open>ToPyBufferInfo\<close>

text \<open>
  Modelled from the spec: the size of an element type in bytes, and the type of its first
  channel alone. A Python dtype is represented by the element type it is cast from.
\<close>

definition strideBytes :: "DataType \<Rightarrow> int" where
  "strideBytes dt = (sum_list (pp_bits (dt_packing dt)) + 7) div 8"

definition channelType0 :: "DataType \<Rightarrow> DataType" where
  "channelType0 dt =
     \<lparr>dt_dataKind = dt_dataKind dt,
      dt_packing = \<lparr>pp_byteOrder = pp_byteOrder (dt_packing dt), pp_swizzle = S_X000,
                    pp_bits = [pp_bits (dt_packing dt) ! 0, 0, 0, 0]\<rparr>\<rparr>"

record buffer_info =
  bi_ptr :: int
  bi_dtype :: DataType
  bi_shape :: "int list"
  bi_strides :: "int list"

text \<open>The two tests of the loop that decides whether one buffer can hold all planes.\<close>

definition planeDiffers :: "ImageData \<Rightarrow> nat \<Rightarrow> bool" where
  "planeDiffers img p =
     (let plane = img_planes img ! p; firstPlane = img_planes img ! 0 in
      pl_width plane \<noteq> pl_width firstPlane \<or> pl_height plane \<noteq> pl_height firstPlane \<or>
      pl_rowStride plane \<noteq> pl_rowStride firstPlane \<or>
      dt_numChannels (planeDataType (img_format img) 0) \<ge> 2 \<or>
      planeDataType (img_format img) 0 \<noteq> planeDataType (img_format img) p)"

definition pitchDiffers :: "ImageData \<Rightarrow> nat \<Rightarrow> bool" where
  "pitchDiffers img p =
     (let goldPlaneStrided = pl_basePtr (img_planes img ! 1) - pl_basePtr (img_planes img ! 0);
          curPlaneStrided = pl_basePtr (img_planes img ! p) - pl_basePtr (img_planes img ! (p - 1)) in
      curPlaneStrided \<noteq> goldPlaneStrided)"

fun singleBufferLoop :: "ImageData \<Rightarrow> nat list \<Rightarrow> bool" where
  "singleBufferLoop img [] = True"
| "singleBufferLoop img (p # ps) =
     (if planeDiffers img p then False
      else if p \<ge> 2 \<and> pitchDiffers img p then False
      else singleBufferLoop img ps)"

definition numBuffersOf :: "ImageData \<Rightarrow> nat" where
  "numBuffersOf img =
     (if singleBufferLoop img [1 ..< length (img_planes img)] then 1 else length (img_planes img))"

text \<open>The inferred shape, strides, layout and element type of buffer \<open>p\<close>.\<close>

definition inferBuffer ::
  "nvcv_lib \<Rightarrow> ImageData \<Rightarrow> nat \<Rightarrow> nat \<Rightarrow> error + (int list \<times> int list \<times> TensorLayout \<times> DataType)" where
  "inferBuffer lib img numBuffers p =
     (let fmt = img_format img; planes = img_planes img; numPlanes = length planes;
          planeWidth = pl_width (planes ! p);
          planeHeight = pl_height (planes ! p);
          planeBPP = strideBytes (planeDataType fmt p);
          planeNumCh = (if planePacking fmt p = X8_Y8__X8_Z8 lib \<or> planePacking fmt p = Y8_X8__Z8_X8 lib
                        then 2 else planeNumChannels fmt p)
      in
      if numBuffers = 1 then
        (if fmt_numChannels fmt = 1 then
           (if numPlanes \<noteq> 1 then Inl AssertionFailure
            else Inr ([planeHeight, planeWidth], [pl_rowStride (planes ! p), planeBPP],
                      ''HW'', planeDataType fmt p))
         else if numPlanes = 1 then
           (if \<not> planeNumCh \<ge> 2 then Inl AssertionFailure
            else Inr ([planeHeight, planeWidth, planeNumCh],
                      [pl_rowStride (planes ! p), planeBPP, planeBPP div planeNumCh],
                      ''HWC'', channelType0 (planeDataType fmt p)))
         else
           (if planeNumCh \<noteq> 1 then Inl AssertionFailure
            else
              (let planeStride = pl_basePtr (planes ! 1) - pl_basePtr (planes ! 0) in
               if \<not> planeStride > 0 then Inl AssertionFailure
               else Inr ([int numPlanes, planeHeight, planeWidth],
                         [planeStride, pl_rowStride (planes ! p), planeBPP],
                         ''CHW'', planeDataType fmt p))))
      else
        (if \<not> numPlanes \<ge> 2 then Inl AssertionFailure
         else if numPlanes \<noteq> numBuffers then Inl AssertionFailure
         else if planeNumCh = 0 then Inl UndefinedBehaviour
         else Inr ([planeHeight, planeWidth, planeNumCh],
                   [pl_rowStride (planes ! p), planeBPP, planeBPP div planeNumCh],
                   ''HWC'', channelType0 (planeDataType fmt p))))"

text \<open>The check that the requested layout has every inferred axis of extent 2 or more.\<close>

definition missingDim :: "TensorLayout \<Rightarrow> int list \<Rightarrow> TensorLayout \<Rightarrow> bool" where
  "missingDim userLayout inferredShape inferredLayout =
     list_ex (\<lambda>i. inferredShape ! i \<ge> 2 \<and> layout_find userLayout (inferredLayout ! i) < 0)
       [0 ..< length inferredLayout]"

text \<open>
  The loop over the requested layout; \<open>rest\<close> are its labels still to run and
  \<open>idxLastInferDim\<close> the position in the inferred layout of the last label found there.
\<close>

fun remapDims ::
  "TensorLayout \<Rightarrow> int list \<Rightarrow> int list \<Rightarrow> TensorLayout \<Rightarrow> int \<Rightarrow> error + (int list \<times> int list)" where
  "remapDims inferredLayout inferredShape inferredStrides [] idxLastInferDim = Inr ([], [])"
| "remapDims inferredLayout inferredShape inferredStrides (c # rest) idxLastInferDim =
     (let idxInferDim = layout_find inferredLayout c in
      if idxInferDim < 0 then
        (case remapDims inferredLayout inferredShape inferredStrides rest idxLastInferDim of
           Inl err \<Rightarrow> Inl err
         | Inr (shape, strides) \<Rightarrow> Inr (1 # shape, 0 # strides))
      else if idxLastInferDim \<ge> idxInferDim then Inl RuntimeError
      else
        (case remapDims inferredLayout inferredShape inferredStrides rest idxInferDim of
           Inl err \<Rightarrow> Inl err
         | Inr (shape, strides) \<Rightarrow>
             Inr (inferredShape ! nat idxInferDim # shape, inferredStrides ! nat idxInferDim # strides)))"

text \<open>The body of the loop over the buffers.\<close>

definition exportBuffer ::
  "nvcv_lib \<Rightarrow> ImageData \<Rightarrow> TensorLayout option \<Rightarrow> nat \<Rightarrow> nat \<Rightarrow> error + (buffer_info \<times> TensorLayout)" where
  "exportBuffer lib img userLayout numBuffers p =
     (case inferBuffer lib img numBuffers p of
        Inl err \<Rightarrow> Inl err
      | Inr (inferredShape, inferredStrides, inferredLayout, inferredDType) \<Rightarrow>
          (case userLayout of
             Some ul \<Rightarrow>
               if missingDim ul inferredShape inferredLayout then Inl RuntimeError
               else
                 (case remapDims inferredLayout inferredShape inferredStrides ul (- 1) of
                    Inl err \<Rightarrow> Inl err
                  | Inr (shape, strides) \<Rightarrow>
                      Inr (\<lparr>bi_ptr = pl_basePtr (img_planes img ! p), bi_dtype = inferredDType,
                            bi_shape = shape, bi_strides = strides\<rparr>, ul))
           | None \<Rightarrow>
               Inr (\<lparr>bi_ptr = pl_basePtr (img_planes img ! p), bi_dtype = inferredDType,
                     bi_shape = inferredShape, bi_strides = inferredStrides\<rparr>, inferredLayout)))"

fun exportLoop ::
  "nvcv_lib \<Rightarrow> ImageData \<Rightarrow> TensorLayout option \<Rightarrow> nat \<Rightarrow> nat list \<Rightarrow>
     error + (buffer_info \<times> TensorLayout) list" where
  "exportLoop lib img userLayout numBuffers [] = Inr []"
| "exportLoop lib img userLayout numBuffers (p # ps) =
     (case exportBuffer lib img userLayout numBuffers p of
        Inl err \<Rightarrow> Inl err
      | Inr b \<Rightarrow>
          (case exportLoop lib img userLayout numBuffers ps of
             Inl err \<Rightarrow> Inl err
           | Inr out \<Rightarrow> Inr (b # out)))"

definition ToPyBufferInfo ::
  "nvcv_lib \<Rightarrow> ImageData \<Rightarrow> TensorLayout option \<Rightarrow> error + (buffer_info \<times> TensorLayout) list" where
  "ToPyBufferInfo lib img userLayout =
     (if length (img_planes img) < 1 then Inr []
      else if (case userLayout of Some ul \<Rightarrow> \<not> isImageLayout lib ul | None \<Rightarrow> False)
      then Inl RuntimeError
      else exportLoop lib img userLayout (numBuffersOf img) [0 ..< numBuffersOf img])"

section \<open>The export conditions of the specification\<close>

text \<open>
  The specification's condition for a single buffer: every plane has the width, height
  and row stride of plane 0, the element type of plane 0 has fewer than 2 channels, every
  plane has the element type of plane 0, and consecutive planes are equally far apart.
\<close>

definition spec_singleBuffer :: "ImageData \<Rightarrow> bool" where
  "spec_singleBuffer img =
     (let planes = img_planes img; fmt = img_format img in
      list_all (\<lambda>p. pl_width (planes ! p) = pl_width (planes ! 0) \<and>
                     pl_height (planes ! p) = pl_height (planes ! 0) \<and>
                     pl_rowStride (planes ! p) = pl_rowStride (planes ! 0)) [0 ..< length planes] \<and>
      dt_numChannels (planeDataType fmt 0) < 2 \<and>
      list_all (\<lambda>p. planeDataType fmt p = planeDataType fmt 0) [0 ..< length planes] \<and>
      list_all (\<lambda>p. pl_basePtr (planes ! p) - pl_basePtr (planes ! (p - 1)) =
                     pl_basePtr (planes ! 1) - pl_basePtr (planes ! 0)) [1 ..< length planes])"

text \<open>
  The positions, in the inferred layout, of the labels of the requested layout that the
  inferred layout has.
\<close>

definition inferredPositions :: "TensorLayout \<Rightarrow> TensorLayout \<Rightarrow> int list" where
  "inferredPositions inferredLayout userLayout =
     map (layout_find inferredLayout) (filter (\<lambda>c. layout_find inferredLayout c \<ge> 0) userLayout)"

text \<open>Images to export: packed RGB, planar RGB in one allocation, and NV12.\<close>

definition img_rgb :: ImageData where
  "img_rgb = \<lparr>img_format = FMT_RGB8 ref_lib,
      img_planes = [\<lparr>pl_width = 6, pl_height = 4, pl_rowStride = 32, pl_basePtr = 4096\<rparr>]\<rparr>"

definition FMT_RGB8p :: ImageFormat where
  "FMT_RGB8p = ImageFormat_Color CM_RGB 0 0 UNSIGNED S_XYZ1 P_X8 P_X8 P_X8 Packing_NONE"

definition img_rgbp :: ImageData where
  "img_rgbp = \<lparr>img_format = FMT_RGB8p,
      img_planes = [\<lparr>pl_width = 6, pl_height = 4, pl_rowStride = 8, pl_basePtr = 4096\<rparr>,
                    \<lparr>pl_width = 6, pl_height = 4, pl_rowStride = 8, pl_basePtr = 4128\<rparr>,
                    \<lparr>pl_width = 6, pl_height = 4, pl_rowStride = 8, pl_basePtr = 4160\<rparr>]\<rparr>"

definition img_nv12 :: ImageData where
  "img_nv12 = \<lparr>img_format = FMT_NV12_ER ref_lib,
      img_planes = [\<lparr>pl_width = 6, pl_height = 4, pl_rowStride = 8, pl_basePtr = 4096\<rparr>,
                    \<lparr>pl_width = 3, pl_height = 2, pl_rowStride = 8, pl_basePtr = 4128\<rparr>]\<rparr>"

text \<open>Two equal planes of one channel, the second at the lower address.\<close>

definition img_2p_down :: ImageData where
  "img_2p_down = \<lparr>img_format = ImageFormat_NonColor 0 UNSIGNED S_XY00 P_X8 P_X8 Packing_NONE Packing_NONE,
      img_planes = [\<lparr>pl_width = 6, pl_height = 4, pl_rowStride = 6, pl_basePtr = 4128\<rparr>,
                    \<lparr>pl_width = 6, pl_height = 4, pl_rowStride = 6, pl_basePtr = 4096\<rparr>]\<rparr>"

definition img_gray :: ImageData where
  "img_gray = \<lparr>img_format = FMT_U8 ref_lib,
      img_planes = [\<lparr>pl_width = 5, pl_height = 2, pl_rowStride = 8, pl_basePtr = 4096\<rparr>]\<rparr>"

text \<open>
  The specification's layout of a single buffer: HW for a format of one channel, HWC for
  one plane of several channels, CHW for several planes.
\<close>

definition spec_singleLayout :: "ImageData \<Rightarrow> TensorLayout" where
  "spec_singleLayout img =
     (if fmt_numChannels (img_format img) = 1 then ''HW''
      else if length (img_planes img) = 1 then ''HWC'' else ''CHW'')"

section \<open>Image::setWrapData\<close>

text \<open>
  The part of the image object that \<open>setWrapData\<close> touches: the wrap data (the device
  type and the Python object that keeps the buffers alive) and the wrapped image data.
  The Python object is the buffer itself or the list of the buffers. The function returns
  the object as it is left, with the exception if one was thrown.
\<close>

record ExternalBuffer =
  eb_dlTensor :: DLTensor

datatype PyObject = PyNone | PyBuffer ExternalBuffer | PyBufferList "ExternalBuffer list"

record WrapData =
  devType :: nat
  obj :: PyObject

record Image =
  m_key :: Key
  m_wrapData :: "WrapData option"
  m_impl :: "ImageData option"

definition otherDevice :: "ExternalBuffer \<Rightarrow> ExternalBuffer \<Rightarrow> bool" where
  "otherDevice b0 b =
     (device_type (t_device (eb_dlTensor b)) \<noteq> device_type (t_device (eb_dlTensor b0)) \<or>
      device_id (t_device (eb_dlTensor b)) \<noteq> device_id (t_device (eb_dlTensor b0)))"

text \<open>The loop over the buffers after the first.\<close>

fun deviceCheckLoop :: "ExternalBuffer \<Rightarrow> ExternalBuffer list \<Rightarrow> error option" where
  "deviceCheckLoop b0 [] = None"
| "deviceCheckLoop b0 (b # bs) =
     (if otherDevice b0 b then Some RuntimeError else deviceCheckLoop b0 bs)"

definition setWrapData :: "Image \<Rightarrow> ExternalBuffer list \<Rightarrow> ImageData \<Rightarrow> Image \<times> error option" where
  "setWrapData this bufs imgData =
     (case m_wrapData this of
        None \<Rightarrow> (this, Some AssertionFailure)
      | Some wd \<Rightarrow>
          if \<not> length bufs \<ge> 1 then (this, Some AssertionFailure)
          else
            (let wd1 = wd\<lparr>devType := device_type (t_device (eb_dlTensor (bufs ! 0)))\<rparr> in
             if length bufs = 1 then
               (this\<lparr>m_wrapData := Some (wd1\<lparr>obj := PyBuffer (bufs ! 0)\<rparr>), m_impl := Some imgData\<rparr>,
                None)
             else
               (case deviceCheckLoop (bufs ! 0) (tl bufs) of
                  Some err \<Rightarrow> (this\<lparr>m_wrapData := Some wd1\<rparr>, Some err)
                | None \<Rightarrow>
                    (this\<lparr>m_wrapData := Some (wd1\<lparr>obj := PyBufferList bufs\<rparr>),
                          m_impl := Some imgData\<rparr>, None))))"

text \<open>The wrapped object of an image, and buffers on two devices.\<close>

definition wrappedObj :: "Image \<Rightarrow> PyObject option" where
  "wrappedObj img = map_option obj (m_wrapData img)"

definition bufferOn :: "nat \<Rightarrow> int \<Rightarrow> int \<Rightarrow> ExternalBuffer" where
  "bufferOn dtype did ptr =
     \<lparr>eb_dlTensor = (tensorHWC ptr 4 6 1 6)\<lparr>t_device := \<lparr>device_type = dtype, device_id = did\<rparr>\<rparr>\<rparr>"

definition freshWrapper :: Image where
  "freshWrapper = \<lparr>m_key = Key_wrapper, m_wrapData = Some \<lparr>devType = 0, obj = PyNone\<rparr>,
                   m_impl = None\<rparr>"

section \<open>Re-ingesting an export\<close>

text \<open>
  Modelled from the spec: the conversion of an exported buffer description to a DLPack
  tensor (the constructor of the tensor wrapper is not in the source tree). The
  specification describes a buffer by its rank, shape, strides and element type with
  bits, lanes and kind. The strides of a buffer description are in bytes and those of a
  DLPack tensor in elements, so each stride is divided by the element size, and a stride
  that is not a multiple of it is refused.
\<close>

definition kindCode :: "DataKind \<Rightarrow> nat" where
  "kindCode k = (case k of SIGNED \<Rightarrow> 0 | UNSIGNED \<Rightarrow> 1 | FLOAT \<Rightarrow> 2 | COMPLEX \<Rightarrow> 5)"

definition toDLDataType :: "DataType \<Rightarrow> DLDataType" where
  "toDLDataType dt =
     \<lparr>dl_code = kindCode (dt_dataKind dt), dl_bits = nat (pp_bits (dt_packing dt) ! 0),
      dl_lanes = nat (dt_numChannels dt)\<rparr>"

definition toDLTensor :: "buffer_info \<times> TensorLayout \<Rightarrow> error + DLTensor" where
  "toDLTensor b =
     (let info = fst b; dtype = toDLDataType (bi_dtype info);
          itemsize = (int (dl_bits dtype) * int (dl_lanes dtype) + 7) div 8 in
      if itemsize = 0 \<or> list_ex (\<lambda>s. s mod itemsize \<noteq> 0) (bi_strides info) then Inl RuntimeError
      else Inr \<lparr>t_data = bi_ptr info, t_device = cuda0, t_ndim = int (length (bi_shape info)),
                t_dtype = dtype, t_shape = bi_shape info,
                t_strides = map (\<lambda>s. s div itemsize) (bi_strides info)\<rparr>)"

fun toDLTensors :: "(buffer_info \<times> TensorLayout) list \<Rightarrow> error + DLTensor list" where
  "toDLTensors [] = Inr []"
| "toDLTensors (b # bs) =
     (case toDLTensor b of
        Inl err \<Rightarrow> Inl err
      | Inr t \<Rightarrow> (case toDLTensors bs of Inl err \<Rightarrow> Inl err | Inr ts \<Rightarrow> Inr (t # ts)))"

text \<open>
  Export with no requested layout, then ingestion of the exported buffers with the
  image's own format as the declared format.
\<close>

definition reingest :: "nvcv_lib \<Rightarrow> ImageData \<Rightarrow> error + ImageData" where
  "reingest lib img =
     (case ToPyBufferInfo lib img None of
        Inl err \<Rightarrow> Inl err
      | Inr out \<Rightarrow>
          (case toDLTensors out of
             Inl err \<Rightarrow> Inl err
           | Inr tensors \<Rightarrow> FillNVCVImageBufferStrided lib tensors (img_format img)))"

section \<open>Images for the round trip\<close>

text \<open>
  A packing of \<open>k\<close> channels of \<open>e\<close> bytes each, in the order X, Y, Z, W, and the element
  type with that packing.
\<close>

definition canonicalSwizzle :: "int \<Rightarrow> Swizzle" where
  "canonicalSwizzle k =
     (if k = 1 then S_X000 else if k = 2 then S_XY00 else if k = 3 then S_XYZ0 else S_XYZW)"

definition bytePacking :: "int \<Rightarrow> int \<Rightarrow> Packing" where
  "bytePacking k e =
     \<lparr>pp_byteOrder = MSB, pp_swizzle = canonicalSwizzle k,
      pp_bits = [8 * e, if 1 < k then 8 * e else 0, if 2 < k then 8 * e else 0,
                 if 3 < k then 8 * e else 0]\<rparr>"


definition planeElemBytes :: "ImageFormat \<Rightarrow> nat \<Rightarrow> int" where
  "planeElemBytes fmt p = pp_bits (planePacking fmt p) ! 0 div 8"

definition uniformBytes :: "ImageFormat \<Rightarrow> nat \<Rightarrow> bool" where
  "uniformBytes fmt p =
     (1 \<le> planeNumChannels fmt p \<and> 1 \<le> planeElemBytes fmt p \<and>
      planePacking fmt p = bytePacking (planeNumChannels fmt p) (planeElemBytes fmt p))"

definition ownPlaneTypes :: "ImageData \<Rightarrow> DataType list" where
  "ownPlaneTypes img = map (planeDataType (img_format img)) [0 ..< length (img_planes img)]"



text \<open>
  A well-formed image, with the reference library's plane sizes: one plane or more; a
  format with four packings, of which those of the image's planes hold one to four
  channels of whole bytes in the order X, Y, Z, W and the others are empty, and whose
  channel count is that of its planes together; planes with a width and a height of at
  least 1 (32-bit values), a row stride that holds the channels of a row and is a multiple
  of the channel size, a size in bytes that is a 64-bit value, and the size that the
  format expects for the size of plane 0.
\<close>

definition wellFormedImage :: "ImageData \<Rightarrow> bool" where
  "wellFormedImage img =
     (let fmt = img_format img; planes = img_planes img; n = length planes in
      1 \<le> n \<and> length (fmt_packing fmt) = 4 \<and>
      list_all (uniformBytes fmt) [0 ..< n] \<and>
      list_all (\<lambda>p. fmt_packing fmt ! p = Packing_NONE) [n ..< 4] \<and>
      fmt_numChannels fmt = totalChannels (ownPlaneTypes img) \<and>
      list_all (\<lambda>p. 1 \<le> pl_width (planes ! p) \<and> 1 \<le> pl_height (planes ! p) \<and>
                     in32 (pl_width (planes ! p)) \<and> in32 (pl_height (planes ! p)) \<and>
                     pl_width (planes ! p) * (planeNumChannels fmt p * planeElemBytes fmt p)
                       \<le> pl_rowStride (planes ! p) \<and>
                     pl_rowStride (planes ! p) mod planeElemBytes fmt p = 0 \<and>
                     in64 (pl_height (planes ! p) * pl_rowStride (planes ! p)) \<and>
                     (pl_width (planes ! p), pl_height (planes ! p)) =
                       ref_planeSize fmt (pl_width (planes ! 0), pl_height (planes ! 0)) p)
        [0 ..< n])"

text \<open>
  The condition on an export as one buffer in a channel-first layout (HW or CHW): the
  rows are not padded, and for CHW the width is not 1 and the distance between the planes
  is a multiple of the channel size. The statement covers CHW buffers of two planes,
  whose size in bytes is a 64-bit value.
\<close>

definition channelFirstPacked :: "ImageData \<Rightarrow> bool" where
  "channelFirstPacked img =
     (let fmt = img_format img; planes = img_planes img; n = length planes in
      if numBuffersOf img = 1 \<and> (fmt_numChannels fmt = 1 \<or> 2 \<le> n) then
        pl_rowStride (planes ! 0) = pl_width (planes ! 0) * planeElemBytes fmt 0 \<and>
        (if 2 \<le> n then
           n = 2 \<and> pl_width (planes ! 0) \<noteq> 1 \<and>
           (pl_basePtr (planes ! 1) - pl_basePtr (planes ! 0)) mod planeElemBytes fmt 0 = 0 \<and>
           in64 (2 * (pl_basePtr (planes ! 1) - pl_basePtr (planes ! 0)))
         else True)
      else True)"












definition img_rgbp_packed :: ImageData where
  "img_rgbp_packed = \<lparr>img_format = FMT_RGB8p,
      img_planes = [\<lparr>pl_width = 6, pl_height = 4, pl_rowStride = 6, pl_basePtr = 4096\<rparr>,
                    \<lparr>pl_width = 6, pl_height = 4, pl_rowStride = 6, pl_basePtr = 4120\<rparr>,
                    \<lparr>pl_width = 6, pl_height = 4, pl_rowStride = 6, pl_basePtr = 4144\<rparr>]\<rparr>"


section \<open>Evaluation rules\<close>

lemmas ref_defs = ref_lib_def ref_ToNVCVDataType_def ref_HasSameDataLayout_def ref_planeSize_def
  P_X8_def P_X8_Y8_def P_X8_Y8_Z8_def P_X8_Y8_Z8_W8_def P_X32_Y32_def dl_uint8_def cuda0_def
  tensorHWC_def TYPE_U8_def TYPE_2U8_def TYPE_3U8_def TYPE_S8_def
  ImageFormat_YCbCr_def ImageFormat_NonColor_def ImageFormat_Raw_def ImageFormat_Color_def
  S_0000_def S_X000_def S_XY00_def S_XYZ0_def S_XYZW_def S_XYZ1_def Packing_NONE_def

lemmas layout_defs = TENSOR_NHWC_def TENSOR_NCHW_def layout_rank_def isChannelLast_def
  idxHeight_def idxWidth_def idxSample_def idxChannel_def numCols_def numRows_def numSamples_def
  numChannels_def extentAt_def

lemmas fmt_defs = planePacking_def planeDataType_def planeNumChannels_def fmt_numChannels_def
  dt_numChannels_def swizzleNumChannels_def isColorChannel_def with_dataKind_def
  swizzleAndPacking_def MakeSwizzle_def GetParams_def MakePacking_def

lemmas ingest_defs = ExtractBufferImageInfo_def extractBuffer_def extractShape_def
  shapeOverflow_def in32_def in64_def narrow32_def elemStrideBytes_def MakePackedType_def fillBits_def gatherPlanes_def InferImageFormat_def
  FillNVCVImageBufferStrided_def planeSizeMismatch_def

lemmas export_defs = ToPyBufferInfo_def numBuffersOf_def exportBuffer_def inferBuffer_def
  missingDim_def planeDiffers_def pitchDiffers_def strideBytes_def channelType0_def

section \<open>Properties of Image::Key\<close>

text \<open>
  C4. \<open>doIsCompatible\<close> is a strict two-class partition: two wrapper keys are always
  compatible, a wrapper key and a sized key never are, and two sized keys are compatible
  exactly when their sizes and their formats are equal.
\<close>

theorem doIsCompatible_partition:
  "(m_isWrapper a \<and> m_isWrapper b \<longrightarrow> doIsCompatible a b) \<and>
   (m_isWrapper a \<noteq> m_isWrapper b \<longrightarrow> \<not> doIsCompatible a b) \<and>
   (\<not> m_isWrapper a \<and> \<not> m_isWrapper b \<longrightarrow>
      doIsCompatible a b = (m_size a = m_size b \<and> m_format a = m_format b))"
  by (auto simp: doIsCompatible_def)

theorem doIsCompatible_partition_witness:
  "doIsCompatible Key_wrapper Key_wrapper \<and>
   \<not> doIsCompatible Key_wrapper (Key_sized (640, 480) (FMT_RGB8 ref_lib)) \<and>
   \<not> doIsCompatible (Key_sized (640, 480) (FMT_RGB8 ref_lib)) Key_wrapper \<and>
   doIsCompatible (Key_sized (640, 480) (FMT_RGB8 ref_lib)) (Key_sized (640, 480) (FMT_RGB8 ref_lib)) \<and>
   \<not> doIsCompatible (Key_sized (640, 480) (FMT_RGB8 ref_lib)) (Key_sized (640, 481) (FMT_RGB8 ref_lib))"
  using doIsCompatible_partition[of Key_wrapper Key_wrapper]
    doIsCompatible_partition[of Key_wrapper "Key_sized (640, 480) (FMT_RGB8 ref_lib)"]
    doIsCompatible_partition[of "Key_sized (640, 480) (FMT_RGB8 ref_lib)" Key_wrapper]
    doIsCompatible_partition[of "Key_sized (640, 480) (FMT_RGB8 ref_lib)"
      "Key_sized (640, 480) (FMT_RGB8 ref_lib)"]
    doIsCompatible_partition[of "Key_sized (640, 480) (FMT_RGB8 ref_lib)"
      "Key_sized (640, 481) (FMT_RGB8 ref_lib)"]
  by (simp add: Key_wrapper_def Key_sized_def)

section \<open>Properties of ExtractBufferImageInfo\<close>


















section \<open>Properties of InferImageFormat\<close>

text \<open>The loop returns the packings and the channel total, or throws at a foreign kind.\<close>

lemma inferLoop_eq:
  "p + length ts \<le> length packing \<Longrightarrow>
   inferLoop all p packing n ts =
     (if list_all (\<lambda>t. dt_dataKind t = dt_dataKind (all ! 0)) ts
      then Inr (take p packing @ map dt_packing ts @ drop (p + length ts) packing,
                n + sum_list (map dt_numChannels ts))
      else Inl InvalidArgument)"
proof (induction ts arbitrary: p packing n)
  case Nil
  then show ?case by simp
next
  case (Cons t ts)
  have len: "Suc p + length ts \<le> length (packing[p := dt_packing t])"
    using Cons.prems by simp
  have upd: "take (Suc p) (packing[p := dt_packing t]) = take p packing @ [dt_packing t]"
    using Cons.prems by (simp add: take_Suc_conv_app_nth)
  show ?case
    using Cons.IH[OF len] upd by (simp add: add.assoc)
qed

lemma inferLoop_start:
  "length ts \<le> 4 \<Longrightarrow>
   inferLoop ts 0 [Packing_NONE, Packing_NONE, Packing_NONE, Packing_NONE] 0 ts =
     (if sameKind ts then Inr (planePackings ts, totalChannels ts) else Inl InvalidArgument)"
  using inferLoop_eq[of 0 ts "[Packing_NONE, Packing_NONE, Packing_NONE, Packing_NONE]" ts 0]
  by (simp add: sameKind_def planePackings_def totalChannels_def)

lemma length_planePackings: "length ts \<le> 4 \<Longrightarrow> length (planePackings ts) = 4"
  by (simp add: planePackings_def)

lemma list4: "length xs = 4 \<Longrightarrow> [xs ! 0, xs ! 1, xs ! 2, xs ! 3] = xs"
  by (auto simp: list_eq_iff_nth_eq less_Suc_eq numeral_eq_Suc)

lemma baseFormat_nth:
  assumes "1 \<le> n" and "n \<le> 4"
  shows "[FMT_U8 lib, FMT_2F32 lib, FMT_RGB8 lib, FMT_RGBA8 lib] ! nat (n - 1) = spec_baseFormat lib n"
proof -
  from assms consider "n = 1" | "n = 2" | "n = 3" | "n = 4" by linarith
  then show ?thesis by cases (simp_all add: spec_baseFormat_def)
qed

lemma InferImageFormat_base:
  assumes ne: "ts \<noteq> []" and len: "length ts \<le> 4" and sk: "sameKind ts"
      and planar: "length ts = 1 \<or> totalChannels ts = int (length ts)"
      and lo: "1 \<le> totalChannels ts" and hi: "totalChannels ts \<le> 4"
  shows "\<exists>f. InferImageFormat lib ts = Inr f \<and>
             fmt_colorModel f = fmt_colorModel (spec_baseFormat lib (totalChannels ts)) \<and>
             fmt_swizzle f = fmt_swizzle (spec_baseFormat lib (totalChannels ts)) \<and>
             fmt_dataKind f = dt_dataKind (ts ! 0) \<and>
             fmt_packing f = planePackings ts"
proof -
  let ?b = "spec_baseFormat lib (totalChannels ts)"
  have pk: "[planePackings ts ! 0, planePackings ts ! 1, planePackings ts ! 2, planePackings ts ! 3]
              = planePackings ts"
    by (rule list4[OF length_planePackings[OF len]])
  show ?thesis
    using ne len sk planar lo hi pk
    by (cases "fmt_colorModel ?b")
       (simp_all add: InferImageFormat_def inferLoop_start baseFormat_nth Let_def
          ImageFormat_YCbCr_def ImageFormat_NonColor_def ImageFormat_Raw_def ImageFormat_Color_def)
qed

lemma InferImageFormat_semiplanar:
  assumes len: "length ts = 2" and sk: "sameKind ts" and tot: "totalChannels ts = 3"
  shows "InferImageFormat lib ts =
           Inr ((FMT_NV12_ER lib)\<lparr>fmt_dataKind := dt_dataKind (ts ! 0), fmt_swizzle := S_XYZ0,
                                  fmt_packing := planePackings ts\<rparr>)"
proof -
  have l4: "length ts \<le> 4" using len by simp
  have pk: "[planePackings ts ! 0, planePackings ts ! 1, planePackings ts ! 2, planePackings ts ! 3]
              = planePackings ts"
    by (rule list4[OF length_planePackings[OF l4]])
  have ne: "ts \<noteq> []" using len by auto
  show ?thesis
    using ne len sk tot pk
    by (simp add: InferImageFormat_def inferLoop_start Let_def swizzleAndPacking_def with_dataKind_def)
qed

text \<open>
  C2. For a non-empty list of at most four plane types of one data kind: when there is one
  plane, or as many channels as planes, and the channel total is between 1 and 4, the
  result has the colour model and the swizzle of the base format for that total (U8,
  2F32, RGB8, RGBA8), the shared data kind and the planes' packings; otherwise, with two
  planes and three channels, the result is the NV12 template with the data kind and the
  packings put in (and the swizzle XYZ0).
\<close>

theorem InferImageFormat_cases:
  assumes "ts \<noteq> []" and "length ts \<le> 4" and "sameKind ts"
  shows "((length ts = 1 \<or> totalChannels ts = int (length ts)) \<and>
            1 \<le> totalChannels ts \<and> totalChannels ts \<le> 4 \<longrightarrow>
          (\<exists>f. InferImageFormat lib ts = Inr f \<and>
             fmt_colorModel f = fmt_colorModel (spec_baseFormat lib (totalChannels ts)) \<and>
             fmt_swizzle f = fmt_swizzle (spec_baseFormat lib (totalChannels ts)) \<and>
             fmt_dataKind f = dt_dataKind (ts ! 0) \<and>
             fmt_packing f = planePackings ts)) \<and>
         (\<not> (length ts = 1 \<or> totalChannels ts = int (length ts)) \<and>
            length ts = 2 \<and> totalChannels ts = 3 \<longrightarrow>
          InferImageFormat lib ts =
            Inr ((FMT_NV12_ER lib)\<lparr>fmt_dataKind := dt_dataKind (ts ! 0), fmt_swizzle := S_XYZ0,
                                   fmt_packing := planePackings ts\<rparr>))"
  using assms InferImageFormat_base[of ts lib] InferImageFormat_semiplanar[of ts lib]
  by blast

lemmas infer_eval = sameKind_def totalChannels_def planePackings_def spec_baseFormat_def
  dt_numChannels_def swizzleNumChannels_def isColorChannel_def

theorem InferImageFormat_cases_witness:
  "[TYPE_3U8] \<noteq> [] \<and> length [TYPE_3U8] \<le> 4 \<and> sameKind [TYPE_3U8] \<and>
   totalChannels [TYPE_3U8] = 3 \<and>
   (\<exists>f. InferImageFormat ref_lib [TYPE_3U8] = Inr f \<and> fmt_colorModel f = CM_RGB \<and>
        fmt_swizzle f = S_XYZ1 \<and> fmt_dataKind f = UNSIGNED \<and>
        fmt_packing f = [P_X8_Y8_Z8, Packing_NONE, Packing_NONE, Packing_NONE]) \<and>
   sameKind [TYPE_U8, TYPE_2U8] \<and> totalChannels [TYPE_U8, TYPE_2U8] = 3 \<and>
   InferImageFormat ref_lib [TYPE_U8, TYPE_2U8] = Inr (FMT_NV12_ER ref_lib)"
  using InferImageFormat_cases[of "[TYPE_3U8]" ref_lib]
        InferImageFormat_cases[of "[TYPE_U8, TYPE_2U8]" ref_lib]
  by (simp add: infer_eval ref_defs)

lemma swizzleNumChannels_le4: "swizzleNumChannels s \<le> 4"
  by (cases s) (simp add: swizzleNumChannels_def)


lemma totalChannels_le: "totalChannels ts \<le> 4 * int (length ts)"
proof (induction ts)
  case Nil
  show ?case by (simp add: totalChannels_def)
next
  case (Cons t ts)
  have "dt_numChannels t \<le> 4" by (simp add: dt_numChannels_def swizzleNumChannels_le4)
  with Cons show ?case by (simp add: totalChannels_def)
qed

lemma InferImageFormat_returns:
  assumes ne: "ts \<noteq> []" and len: "length ts \<le> 4" and sk: "sameKind ts"
      and pos: "length ts = 1 \<longrightarrow> 1 \<le> totalChannels ts"
  shows "\<exists>f. InferImageFormat lib ts = Inr f"
proof (cases "length ts = 1 \<or> totalChannels ts = int (length ts)")
  case True
  have lo: "1 \<le> totalChannels ts"
    using True pos ne by (cases ts) auto
  have hi: "totalChannels ts \<le> 4"
    using True len totalChannels_le[of ts] by auto
  from InferImageFormat_base[OF ne len sk True lo hi] show ?thesis by blast
next
  case False
  then show ?thesis
    using ne len sk
    by (simp add: InferImageFormat_def inferLoop_start Let_def)
qed

lemma InferImageFormat_throws_iff:
  assumes len: "length ts \<le> 4"
  shows "throws (InferImageFormat lib ts) = (\<not> sameKind ts)"
proof (cases "ts = []")
  case True
  then show ?thesis by (simp add: InferImageFormat_def sameKind_def throws_def)
next
  case ne: False
  show ?thesis
  proof (cases "sameKind ts")
    case True
    have "\<exists>f. InferImageFormat lib ts = Inr f \<or> InferImageFormat lib ts = Inl AssertionFailure
             \<or> InferImageFormat lib ts = Inl UndefinedBehaviour"
      using ne len True
      by (auto simp add: InferImageFormat_def inferLoop_start Let_def split: ColorModel.splits)
    then show ?thesis using True by (auto simp: throws_def)
  next
    case False
    then show ?thesis using ne len
      by (simp add: InferImageFormat_def inferLoop_start throws_def)
  qed
qed

lemma InferImageFormat_lone_empty:
  assumes "length ts = 1" and "totalChannels ts < 1"
  shows "InferImageFormat lib ts = Inl UndefinedBehaviour"
proof -
  from assms(1) obtain t where ts: "ts = [t]" by (cases ts) auto
  from assms(2) have c: "dt_numChannels t < 1" by (simp add: ts totalChannels_def)
  have "dt_numChannels t \<le> 4" by (simp add: dt_numChannels_def swizzleNumChannels_le4)
  with c show ?thesis by (simp add: ts InferImageFormat_def Let_def)
qed

lemma InferImageFormat_returns_iff:
  assumes ne: "ts \<noteq> []" and len: "length ts \<le> 4"
  shows "(\<exists>f. InferImageFormat lib ts = Inr f) =
           (sameKind ts \<and> \<not> (length ts = 1 \<and> totalChannels ts < 1))"
proof (cases "sameKind ts \<and> \<not> (length ts = 1 \<and> totalChannels ts < 1)")
  case True
  then have "\<exists>f. InferImageFormat lib ts = Inr f"
    using InferImageFormat_returns[OF ne len, of lib] by auto
  with True show ?thesis by simp
next
  case False
  have "\<not> (\<exists>f. InferImageFormat lib ts = Inr f)"
  proof (cases "sameKind ts")
    case True
    with False have "length ts = 1" "totalChannels ts < 1" by auto
    from InferImageFormat_lone_empty[OF this] show ?thesis by simp
  next
    case nk: False
    then have "throws (InferImageFormat lib ts)"
      using InferImageFormat_throws_iff[OF len] by simp
    then show ?thesis by (auto simp: throws_def)
  qed
  with False show ?thesis by simp
qed

text \<open>
  C8, as the code has it. For the empty list the result is the none format. A non-empty
  list of at most four plane types, with at most 4 channels in total, all of one data
  kind, in which a plane that is alone holds at least one channel, is accepted; more
  exactly, a non-empty list of at most four plane types is accepted if and only if its
  types are of one data kind and a plane that is alone holds at least one channel. For a
  list of at most four plane types, an exception is thrown exactly when some plane's data
  kind is not that of plane 0.
\<close>

theorem InferImageFormat_total:
  "InferImageFormat lib [] = Inr (FMT_NONE lib) \<and>
   (ts \<noteq> [] \<and> length ts \<le> 4 \<and> totalChannels ts \<le> 4 \<and> sameKind ts \<and>
      \<not> (length ts = 1 \<and> totalChannels ts < 1)
      \<longrightarrow> (\<exists>f. InferImageFormat lib ts = Inr f)) \<and>
   (ts \<noteq> [] \<and> length ts \<le> 4 \<longrightarrow>
      (\<exists>f. InferImageFormat lib ts = Inr f) =
        (sameKind ts \<and> \<not> (length ts = 1 \<and> totalChannels ts < 1))) \<and>
   (length ts \<le> 4 \<longrightarrow> throws (InferImageFormat lib ts) = (\<not> sameKind ts))"
proof (intro conjI impI)
  show "InferImageFormat lib [] = Inr (FMT_NONE lib)"
    by (simp add: InferImageFormat_def)
next
  assume "ts \<noteq> [] \<and> length ts \<le> 4 \<and> totalChannels ts \<le> 4 \<and> sameKind ts \<and>
      \<not> (length ts = 1 \<and> totalChannels ts < 1)"
  then show "\<exists>f. InferImageFormat lib ts = Inr f"
    using InferImageFormat_returns_iff[of ts lib] by blast
next
  assume "ts \<noteq> [] \<and> length ts \<le> 4"
  then show "(\<exists>f. InferImageFormat lib ts = Inr f) =
        (sameKind ts \<and> \<not> (length ts = 1 \<and> totalChannels ts < 1))"
    using InferImageFormat_returns_iff[of ts lib] by blast
next
  assume "length ts \<le> 4"
  then show "throws (InferImageFormat lib ts) = (\<not> sameKind ts)"
    by (rule InferImageFormat_throws_iff)
qed

theorem InferImageFormat_total_witness:
  "[TYPE_U8, TYPE_U8, TYPE_U8] \<noteq> [] \<and> length [TYPE_U8, TYPE_U8, TYPE_U8] \<le> 4 \<and>
   totalChannels [TYPE_U8, TYPE_U8, TYPE_U8] \<le> 4 \<and> sameKind [TYPE_U8, TYPE_U8, TYPE_U8] \<and>
   (\<exists>f. InferImageFormat ref_lib [TYPE_U8, TYPE_U8, TYPE_U8] = Inr f) \<and>
   \<not> throws (InferImageFormat ref_lib [TYPE_U8, TYPE_U8, TYPE_U8]) \<and>
   length [TYPE_U8, TYPE_S8] \<le> 4 \<and> \<not> sameKind [TYPE_U8, TYPE_S8] \<and>
   throws (InferImageFormat ref_lib [TYPE_U8, TYPE_S8]) \<and>
   \<not> (\<exists>f. InferImageFormat ref_lib [TYPE_U8, TYPE_S8] = Inr f)"
  using InferImageFormat_total[of ref_lib "[TYPE_U8, TYPE_U8, TYPE_U8]"]
        InferImageFormat_total[of ref_lib "[TYPE_U8, TYPE_S8]"]
  by (simp add: infer_eval ref_defs)

text \<open>
  The claim as stated fails in three places. A single plane type without channels is a
  non-empty list of at most 4 channels of one data kind, and the function reads its table
  of base formats at index -1. Five plane types without channels are such a list too, and
  the assertion on the number of planes fails. And for five plane types of which the
  second has another data kind than the first, no exception is thrown: the same
  assertion fails first.
\<close>

theorem InferImageFormat_total_counterexample:
  "[TYPE_NONE] \<noteq> [] \<and> totalChannels [TYPE_NONE] \<le> 4 \<and> sameKind [TYPE_NONE] \<and>
   InferImageFormat ref_lib [TYPE_NONE] = Inl UndefinedBehaviour \<and>
   totalChannels [TYPE_NONE, TYPE_NONE, TYPE_NONE, TYPE_NONE, TYPE_NONE] \<le> 4 \<and>
   sameKind [TYPE_NONE, TYPE_NONE, TYPE_NONE, TYPE_NONE, TYPE_NONE] \<and>
   InferImageFormat ref_lib [TYPE_NONE, TYPE_NONE, TYPE_NONE, TYPE_NONE, TYPE_NONE] =
     Inl AssertionFailure \<and>
   \<not> sameKind [TYPE_U8, TYPE_S8, TYPE_U8, TYPE_U8, TYPE_U8] \<and>
   \<not> throws (InferImageFormat ref_lib [TYPE_U8, TYPE_S8, TYPE_U8, TYPE_U8, TYPE_U8])"
  by (simp add: TYPE_NONE_def InferImageFormat_def infer_eval throws_def ref_defs Let_def)

section \<open>Properties of MakePackedType\<close>













section \<open>Properties of FillNVCVImageBufferStrided\<close>

lemma Fill_characterisation:
  assumes g: "gatherPlanes lib infos fmt = Inr (planes, types)"
      and i: "InferImageFormat lib types = Inr inferred"
  shows "FillNVCVImageBufferStrided lib infos fmt =
          (if fmt \<noteq> FMT_NONE lib \<and> \<not> HasSameDataLayout lib fmt inferred then Inl InvalidArgument
           else if \<exists>p < length planes.
                     planeSizeMismatch lib (if fmt \<noteq> FMT_NONE lib then fmt else inferred) planes p
                then Inl InvalidArgument
           else Inr \<lparr>img_format = (if fmt \<noteq> FMT_NONE lib then fmt else inferred),
                     img_planes = planes\<rparr>)"
  using g i by (auto simp: FillNVCVImageBufferStrided_def Let_def list_ex_iff)

text \<open>
  C3. Once the planes are gathered and a format is inferred from them: a declared format
  that has not the data layout of the inferred one is refused with an invalid-argument
  error; an image that is returned has the declared format if one was given and the
  inferred one if not; a plane whose width or height is not \<open>planeSize\<close> of the final
  format, for the size of plane 0, is refused with an invalid-argument error; and when
  neither check fails the image is returned.
\<close>

theorem FillNVCVImageBufferStrided_validation:
  assumes g: "gatherPlanes lib infos fmt = Inr (planes, types)"
      and i: "InferImageFormat lib types = Inr inferred"
  shows "(fmt \<noteq> FMT_NONE lib \<and> \<not> HasSameDataLayout lib fmt inferred \<longrightarrow>
            FillNVCVImageBufferStrided lib infos fmt = Inl InvalidArgument) \<and>
         (\<forall>img. FillNVCVImageBufferStrided lib infos fmt = Inr img \<longrightarrow>
            img_format img = finalFormatOf lib fmt inferred \<and> img_planes img = planes) \<and>
         ((\<exists>p < length planes.
             (pl_width (planes ! p), pl_height (planes ! p)) \<noteq>
             planeSize lib (finalFormatOf lib fmt inferred)
               (pl_width (planes ! 0), pl_height (planes ! 0)) p) \<longrightarrow>
            FillNVCVImageBufferStrided lib infos fmt = Inl InvalidArgument) \<and>
         (\<not> (fmt \<noteq> FMT_NONE lib \<and> \<not> HasSameDataLayout lib fmt inferred) \<and>
          (\<forall>p < length planes.
             (pl_width (planes ! p), pl_height (planes ! p)) =
             planeSize lib (finalFormatOf lib fmt inferred)
               (pl_width (planes ! 0), pl_height (planes ! 0)) p) \<longrightarrow>
            FillNVCVImageBufferStrided lib infos fmt =
              Inr \<lparr>img_format = finalFormatOf lib fmt inferred, img_planes = planes\<rparr>)"
proof -
  have mm: "planeSizeMismatch lib f planes p =
      ((pl_width (planes ! p), pl_height (planes ! p)) \<noteq>
        planeSize lib f (pl_width (planes ! 0), pl_height (planes ! 0)) p)" for f p
    by (auto simp: planeSizeMismatch_def Let_def prod_eq_iff)
  show ?thesis
    unfolding Fill_characterisation[OF g i] finalFormatOf_def[symmetric] mm
    by auto
qed

lemma gather_rgb_example:
  "gatherPlanes ref_lib [tensorHWC 4096 4 6 3 32] (FMT_RGB8 ref_lib) =
     Inr ([\<lparr>pl_width = 6, pl_height = 4, pl_rowStride = 32, pl_basePtr = 4096\<rparr>], [TYPE_3U8])"
  by (simp add: ingest_defs layout_defs fmt_defs ref_defs Let_def upt_rec)

lemma gather_signed_example:
  "gatherPlanes ref_lib [tensorHWC 4096 4 6 3 32] (with_dataKind (FMT_RGB8 ref_lib) SIGNED) =
     Inr ([\<lparr>pl_width = 6, pl_height = 4, pl_rowStride = 32, pl_basePtr = 4096\<rparr>], [TYPE_3U8])"
  by (simp add: ingest_defs layout_defs fmt_defs ref_defs Let_def upt_rec)

lemma gather_fullsize_chroma_example:
  "gatherPlanes ref_lib [tensorHWC 4096 4 6 1 6, tensorHWC 8192 4 6 2 12] (FMT_NONE ref_lib) =
     Inr ([\<lparr>pl_width = 6, pl_height = 4, pl_rowStride = 6, pl_basePtr = 4096\<rparr>,
           \<lparr>pl_width = 6, pl_height = 4, pl_rowStride = 12, pl_basePtr = 8192\<rparr>],
          [TYPE_U8, TYPE_2U8])"
  by (simp add: ingest_defs layout_defs fmt_defs ref_defs Let_def upt_rec)

lemma infer_rgb_example: "InferImageFormat ref_lib [TYPE_3U8] = Inr (FMT_RGB8 ref_lib)"
  by (simp add: ingest_defs fmt_defs ref_defs Let_def)

lemma infer_nv12_example: "InferImageFormat ref_lib [TYPE_U8, TYPE_2U8] = Inr (FMT_NV12_ER ref_lib)"
  by (simp add: ingest_defs fmt_defs ref_defs Let_def)

theorem FillNVCVImageBufferStrided_validation_witness:
  "FillNVCVImageBufferStrided ref_lib [tensorHWC 4096 4 6 3 32] (FMT_RGB8 ref_lib) =
     Inr \<lparr>img_format = FMT_RGB8 ref_lib,
          img_planes = [\<lparr>pl_width = 6, pl_height = 4, pl_rowStride = 32, pl_basePtr = 4096\<rparr>]\<rparr> \<and>
   FillNVCVImageBufferStrided ref_lib [tensorHWC 4096 4 6 3 32]
     (with_dataKind (FMT_RGB8 ref_lib) SIGNED) = Inl InvalidArgument \<and>
   FillNVCVImageBufferStrided ref_lib [tensorHWC 4096 4 6 1 6, tensorHWC 8192 4 6 2 12]
     (FMT_NONE ref_lib) = Inl InvalidArgument"
proof -
  let ?rgb = "[\<lparr>pl_width = 6, pl_height = 4, pl_rowStride = 32, pl_basePtr = 4096\<rparr>]"
  let ?yuv = "[\<lparr>pl_width = 6, pl_height = 4, pl_rowStride = 6, pl_basePtr = 4096\<rparr>,
               \<lparr>pl_width = 6, pl_height = 4, pl_rowStride = 12, pl_basePtr = 8192\<rparr>]"
  have same: "HasSameDataLayout ref_lib (FMT_RGB8 ref_lib) (FMT_RGB8 ref_lib)"
    by (simp add: ref_defs)
  have fin: "finalFormatOf ref_lib (FMT_RGB8 ref_lib) (FMT_RGB8 ref_lib) = FMT_RGB8 ref_lib"
    by (simp add: finalFormatOf_def)
  have sz0: "planeSize ref_lib (FMT_RGB8 ref_lib) (6, 4) 0 = (6, 4)"
    by (simp add: ref_defs)
  have ok: "FillNVCVImageBufferStrided ref_lib [tensorHWC 4096 4 6 3 32] (FMT_RGB8 ref_lib) =
     Inr \<lparr>img_format = FMT_RGB8 ref_lib, img_planes = ?rgb\<rparr>"
    using FillNVCVImageBufferStrided_validation[OF gather_rgb_example infer_rgb_example]
    by (simp add: same fin sz0)
  have given: "with_dataKind (FMT_RGB8 ref_lib) SIGNED \<noteq> FMT_NONE ref_lib"
    by (simp add: with_dataKind_def ref_defs)
  have differ: "\<not> HasSameDataLayout ref_lib (with_dataKind (FMT_RGB8 ref_lib) SIGNED) (FMT_RGB8 ref_lib)"
    by (simp add: with_dataKind_def ref_defs)
  have layout: "FillNVCVImageBufferStrided ref_lib [tensorHWC 4096 4 6 3 32]
     (with_dataKind (FMT_RGB8 ref_lib) SIGNED) = Inl InvalidArgument"
    using FillNVCVImageBufferStrided_validation[OF gather_signed_example infer_rgb_example]
      given differ by blast
  have fin2: "finalFormatOf ref_lib (FMT_NONE ref_lib) (FMT_NV12_ER ref_lib) = FMT_NV12_ER ref_lib"
    by (simp add: finalFormatOf_def)
  have half: "planeSize ref_lib (FMT_NV12_ER ref_lib) (6, 4) (Suc 0) = (3, 2)"
    by (simp add: ref_defs)
  have bad: "\<exists>p < length ?yuv. (pl_width (?yuv ! p), pl_height (?yuv ! p)) \<noteq>
      planeSize ref_lib (finalFormatOf ref_lib (FMT_NONE ref_lib) (FMT_NV12_ER ref_lib))
        (pl_width (?yuv ! 0), pl_height (?yuv ! 0)) p"
    by (rule exI[of _ 1]) (simp add: fin2 half)
  have sz: "FillNVCVImageBufferStrided ref_lib [tensorHWC 4096 4 6 1 6, tensorHWC 8192 4 6 2 12]
     (FMT_NONE ref_lib) = Inl InvalidArgument"
    using FillNVCVImageBufferStrided_validation[OF gather_fullsize_chroma_example infer_nv12_example]
      bad by blast
  from ok layout sz show ?thesis by simp
qed

text \<open>
  The width of a plane is a 32-bit integer: a buffer whose extent is 6 + 2^32 gives a
  plane of width 6, which goes with a second plane of width 6.
\<close>

lemma Fill_narrowing_example:
  "FillNVCVImageBufferStrided ref_lib
     [tensorHWC 4096 4 4294967302 1 4294967302, tensorHWC 8192 4 6 1 6] (FMT_NONE ref_lib) =
   Inr \<lparr>img_format = ImageFormat_NonColor 0 UNSIGNED S_XY00 P_X8 P_X8 Packing_NONE Packing_NONE,
        img_planes = [\<lparr>pl_width = 6, pl_height = 4, pl_rowStride = 4294967302, pl_basePtr = 4096\<rparr>,
                      \<lparr>pl_width = 6, pl_height = 4, pl_rowStride = 6, pl_basePtr = 8192\<rparr>]\<rparr>"
  by (simp add: ingest_defs layout_defs fmt_defs ref_defs Let_def upt_rec)

section \<open>Properties of ToPyBufferInfo\<close>

lemma layout_find_neg: "(layout_find l c < 0) = (c \<notin> set l)"
  by (induction l) (auto simp: Let_def)

lemma singleBufferLoop_all:
  "singleBufferLoop img ps =
     list_all (\<lambda>p. \<not> planeDiffers img p \<and> \<not> (p \<ge> 2 \<and> pitchDiffers img p)) ps"
  by (induction ps) auto

lemma loop_vs_spec:
  fixes n :: nat
  assumes n: "1 < n" and g: "G 0" and t: "T 0" and d: "D 1"
  shows "(\<forall>p. 1 \<le> p \<and> p < n \<longrightarrow> G p \<and> C \<and> T p \<and> (2 \<le> p \<longrightarrow> D p)) =
         ((\<forall>p < n. G p) \<and> C \<and> (\<forall>p < n. T p) \<and> (\<forall>p. 1 \<le> p \<and> p < n \<longrightarrow> D p))"
    (is "?L = ?R")
proof
  assume l: ?L
  have "G p" if "p < n" for p using l g that by (cases "p = 0") auto
  moreover have "T p" if "p < n" for p using l t that by (cases "p = 0") auto
  moreover have "C" using l n by auto
  moreover have "D p" if "1 \<le> p" "p < n" for p
  proof (cases "p = 1")
    case True
    then show ?thesis using d by simp
  next
    case False
    with that have "2 \<le> p" by simp
    with l that show ?thesis by blast
  qed
  ultimately show ?R by blast
next
  assume ?R
  then show ?L by auto
qed

lemma singleBuffer_spec:
  assumes "2 \<le> length (img_planes img)"
  shows "singleBufferLoop img [1 ..< length (img_planes img)] = spec_singleBuffer img"
proof -
  let ?n = "length (img_planes img)"
  let ?pl = "img_planes img" and ?f = "img_format img"
  let ?G = "\<lambda>p. pl_width (?pl ! p) = pl_width (?pl ! 0) \<and> pl_height (?pl ! p) = pl_height (?pl ! 0) \<and>
                 pl_rowStride (?pl ! p) = pl_rowStride (?pl ! 0)"
  let ?C = "dt_numChannels (planeDataType ?f 0) < 2"
  let ?T = "\<lambda>p. planeDataType ?f p = planeDataType ?f 0"
  let ?D = "\<lambda>p. pl_basePtr (?pl ! p) - pl_basePtr (?pl ! (p - 1)) = pl_basePtr (?pl ! 1) - pl_basePtr (?pl ! 0)"
  have one: "1 < ?n" using assms by simp
  have L: "singleBufferLoop img [1 ..< ?n] =
      (\<forall>p. 1 \<le> p \<and> p < ?n \<longrightarrow> ?G p \<and> ?C \<and> ?T p \<and> (2 \<le> p \<longrightarrow> ?D p))"
    by (auto simp: singleBufferLoop_all list_all_iff planeDiffers_def pitchDiffers_def Let_def)
  have R: "spec_singleBuffer img =
      ((\<forall>p < ?n. ?G p) \<and> ?C \<and> (\<forall>p < ?n. ?T p) \<and> (\<forall>p. 1 \<le> p \<and> p < ?n \<longrightarrow> ?D p))"
    by (auto simp: spec_singleBuffer_def list_all_iff Let_def)
  show ?thesis
    unfolding L R
    by (rule loop_vs_spec[OF one]) simp_all
qed

lemma numBuffersOf_one:
  assumes "img_planes img \<noteq> []"
  shows "(numBuffersOf img = 1) = (length (img_planes img) = 1 \<or> spec_singleBuffer img)"
proof (cases "length (img_planes img) = 1")
  case True
  then show ?thesis by (simp add: numBuffersOf_def)
next
  case False
  moreover from assms have "length (img_planes img) \<noteq> 0" by simp
  ultimately have two: "2 \<le> length (img_planes img)" by linarith
  show ?thesis
    using False two singleBuffer_spec[OF two] by (simp add: numBuffersOf_def)
qed

lemma exportLoop_nth:
  "exportLoop lib img ul nb ps = Inr out \<Longrightarrow>
     length out = length ps \<and>
     (\<forall>i < length ps. exportBuffer lib img ul nb (ps ! i) = Inr (out ! i))"
proof (induction ps arbitrary: out)
  case Nil
  then show ?case by simp
next
  case (Cons p ps)
  from Cons.prems obtain b rest where
    b: "exportBuffer lib img ul nb p = Inr b" and
    rest: "exportLoop lib img ul nb ps = Inr rest" and
    out: "out = b # rest"
    by (auto split: sum.splits)
  from Cons.IH[OF rest] have len: "length rest = length ps"
    and nth: "\<forall>i < length ps. exportBuffer lib img ul nb (ps ! i) = Inr (rest ! i)"
    by auto
  show ?case
  proof (intro conjI allI impI)
    show "length out = length (p # ps)" using len out by simp
  next
    fix i assume "i < length (p # ps)"
    then show "exportBuffer lib img ul nb ((p # ps) ! i) = Inr (out ! i)"
      using b nth out by (cases i) auto
  qed
qed

lemma exportLoop_fails:
  "p \<in> set ps \<Longrightarrow> exportBuffer lib img ul nb p = Inl e \<Longrightarrow> isl (exportLoop lib img ul nb ps)"
  by (induction ps) (auto split: sum.splits)

lemma ToPyBufferInfo_nth:
  assumes "ToPyBufferInfo lib img ul = Inr out" and "img_planes img \<noteq> []"
  shows "length out = numBuffersOf img \<and>
         (\<forall>p < numBuffersOf img. exportBuffer lib img ul (numBuffersOf img) p = Inr (out ! p))"
proof -
  from assms have "exportLoop lib img ul (numBuffersOf img) [0 ..< numBuffersOf img] = Inr out"
    by (auto simp: ToPyBufferInfo_def split: if_splits)
  from exportLoop_nth[OF this] show ?thesis by simp
qed

lemma inferBuffer_layout:
  assumes "inferBuffer lib img nb p = Inr (sh, st, il, dt)"
  shows "il = (if nb = 1 then spec_singleLayout img else ''HWC'') \<and>
         length sh = length il \<and> length st = length il"
  using assms
  by (auto simp: inferBuffer_def Let_def spec_singleLayout_def split: if_splits)

lemma exportBuffer_inferred:
  assumes "exportBuffer lib img ul nb p = Inr b"
  shows "\<exists>sh st il dt. inferBuffer lib img nb p = Inr (sh, st, il, dt) \<and>
           (ul = None \<longrightarrow> snd b = il \<and> bi_shape (fst b) = sh)"
  using assms
  by (cases "inferBuffer lib img nb p") (auto simp: exportBuffer_def split: option.splits if_splits sum.splits)

text \<open>
  C5, as the code has it. An export that returns gives a single buffer exactly when the
  image has one plane, or has two or more planes for which the specification's condition
  holds (same width, height and row stride as plane 0, element type of plane 0 with fewer
  than 2 channels and shared by all planes, equal distance between consecutive planes).
  The inferred layout of the single buffer is HW for a format of one channel, HWC for one
  plane of several channels and CHW for several planes; otherwise there is one buffer
  per plane, each inferred with layout HWC and a shape of three extents. Without a
  requested layout, the inferred layout and shape are those of the buffer returned.
\<close>

theorem ToPyBufferInfo_buffers:
  assumes ok: "ToPyBufferInfo lib img ul = Inr out"
  shows "(length out = 1) =
           (length (img_planes img) = 1 \<or> (2 \<le> length (img_planes img) \<and> spec_singleBuffer img)) \<and>
         (length out = 1 \<longrightarrow>
            (\<exists>sh st dt. inferBuffer lib img 1 0 = Inr (sh, st, spec_singleLayout img, dt)) \<and>
            (ul = None \<longrightarrow> snd (out ! 0) = spec_singleLayout img)) \<and>
         (length out \<noteq> 1 \<longrightarrow> length out = length (img_planes img) \<and>
            (\<forall>p < length out. \<exists>sh st dt.
                inferBuffer lib img (length out) p = Inr (sh, st, ''HWC'', dt) \<and> length sh = 3) \<and>
            (ul = None \<longrightarrow>
               list_all (\<lambda>b. snd b = ''HWC'' \<and> length (bi_shape (fst b)) = 3) out))"
proof (cases "img_planes img = []")
  case True
  with ok have "out = []" by (simp add: ToPyBufferInfo_def)
  with True show ?thesis by simp
next
  case ne: False
  note nth = ToPyBufferInfo_nth[OF ok ne]
  have len: "length out = numBuffersOf img" using nth by simp
  have pos: "1 \<le> length (img_planes img)" using ne by (cases "img_planes img") auto
  have c1: "(length out = 1) =
      (length (img_planes img) = 1 \<or> (2 \<le> length (img_planes img) \<and> spec_singleBuffer img))"
    using len numBuffersOf_one[OF ne] pos by auto
  have inf: "\<exists>sh st dt. inferBuffer lib img (length out) p =
               Inr (sh, st, if length out = 1 then spec_singleLayout img else ''HWC'', dt) \<and>
               length sh = length (if length out = 1 then spec_singleLayout img else ''HWC'') \<and>
               (ul = None \<longrightarrow> snd (out ! p) = (if length out = 1 then spec_singleLayout img else ''HWC'') \<and>
                               bi_shape (fst (out ! p)) = sh)"
    if p: "p < length out" for p
  proof -
    from p len nth have "exportBuffer lib img ul (length out) p = Inr (out ! p)" by simp
    from exportBuffer_inferred[OF this] obtain sh st il dt where
      i: "inferBuffer lib img (length out) p = Inr (sh, st, il, dt)" and
      n: "ul = None \<longrightarrow> snd (out ! p) = il \<and> bi_shape (fst (out ! p)) = sh" by blast
    from inferBuffer_layout[OF i] i n show ?thesis by auto
  qed
  have c2: "(\<exists>sh st dt. inferBuffer lib img 1 0 = Inr (sh, st, spec_singleLayout img, dt)) \<and>
            (ul = None \<longrightarrow> snd (out ! 0) = spec_singleLayout img)" if one: "length out = 1"
    using inf[of 0] one by auto
  have c3: "length out = length (img_planes img) \<and>
            (\<forall>p < length out. \<exists>sh st dt.
                inferBuffer lib img (length out) p = Inr (sh, st, ''HWC'', dt) \<and> length sh = 3) \<and>
            (ul = None \<longrightarrow>
               list_all (\<lambda>b. snd b = ''HWC'' \<and> length (bi_shape (fst b)) = 3) out)"
    if many: "length out \<noteq> 1"
  proof -
    from many len have nb: "numBuffersOf img \<noteq> 1" by simp
    then have n: "length out = length (img_planes img)"
      using len by (simp add: numBuffersOf_def split: if_splits)
    have a: "\<exists>sh st dt. inferBuffer lib img (length out) p = Inr (sh, st, ''HWC'', dt) \<and> length sh = 3"
      if "p < length out" for p
      using inf[OF that] many by auto
    have b: "snd (out ! p) = ''HWC'' \<and> length (bi_shape (fst (out ! p))) = 3"
      if "p < length out" "ul = None" for p
      using inf[OF that(1)] many that(2) by auto
    from n a b show ?thesis by (simp add: list_all_length)
  qed
  from c1 c2 c3 show ?thesis by blast
qed


lemma export_rgbp_example:
  "ToPyBufferInfo ref_lib img_rgbp None =
     Inr [(\<lparr>bi_ptr = 4096, bi_dtype = TYPE_U8, bi_shape = [3, 4, 6], bi_strides = [32, 8, 1]\<rparr>,
           ''CHW'')]"
  by (simp add: img_rgbp_def FMT_RGB8p_def export_defs fmt_defs ref_defs Let_def upt_rec)

lemma export_nv12_example:
  "ToPyBufferInfo ref_lib img_nv12 None =
     Inr [(\<lparr>bi_ptr = 4096, bi_dtype = TYPE_U8, bi_shape = [4, 6, 1], bi_strides = [8, 1, 1]\<rparr>,
           ''HWC''),
          (\<lparr>bi_ptr = 4128, bi_dtype = TYPE_U8, bi_shape = [2, 3, 2], bi_strides = [8, 2, 1]\<rparr>,
           ''HWC'')]"
  by (simp add: img_nv12_def export_defs fmt_defs ref_defs Let_def upt_rec)

lemma export_nv12_nhwc_example:
  "ToPyBufferInfo ref_lib img_nv12 (Some ''NHWC'') =
     Inr [(\<lparr>bi_ptr = 4096, bi_dtype = TYPE_U8, bi_shape = [1, 4, 6, 1], bi_strides = [0, 8, 1, 1]\<rparr>,
           ''NHWC''),
          (\<lparr>bi_ptr = 4128, bi_dtype = TYPE_U8, bi_shape = [1, 2, 3, 2], bi_strides = [0, 8, 2, 1]\<rparr>,
           ''NHWC'')]"
  by (simp add: img_nv12_def export_defs fmt_defs ref_defs Let_def upt_rec)

theorem ToPyBufferInfo_buffers_witness:
  "ToPyBufferInfo ref_lib img_rgbp None =
     Inr [(\<lparr>bi_ptr = 4096, bi_dtype = TYPE_U8, bi_shape = [3, 4, 6], bi_strides = [32, 8, 1]\<rparr>,
           ''CHW'')] \<and>
   length (img_planes img_rgbp) = 3 \<and> spec_singleBuffer img_rgbp \<and>
   spec_singleLayout img_rgbp = ''CHW'' \<and>
   (\<exists>sh st dt. inferBuffer ref_lib img_rgbp 1 0 = Inr (sh, st, ''CHW'', dt)) \<and>
   (\<exists>out. ToPyBufferInfo ref_lib img_nv12 None = Inr out \<and> length out = 2) \<and>
   length (img_planes img_nv12) = 2 \<and> \<not> spec_singleBuffer img_nv12 \<and>
   (\<exists>out. ToPyBufferInfo ref_lib img_nv12 (Some ''NHWC'') = Inr out \<and> length out = 2) \<and>
   (\<exists>sh st dt. inferBuffer ref_lib img_nv12 2 0 = Inr (sh, st, ''HWC'', dt) \<and> length sh = 3) \<and>
   (\<exists>sh st dt. inferBuffer ref_lib img_nv12 2 1 = Inr (sh, st, ''HWC'', dt) \<and> length sh = 3)"
proof -
  have n1: "length (img_planes img_rgbp) = 3" and n2: "length (img_planes img_nv12) = 2"
    by (simp_all add: img_rgbp_def img_nv12_def)
  from ToPyBufferInfo_buffers[OF export_rgbp_example]
  have a: "spec_singleBuffer img_rgbp" and b: "spec_singleLayout img_rgbp = ''CHW''"
    and b': "\<exists>sh st dt. inferBuffer ref_lib img_rgbp 1 0 = Inr (sh, st, spec_singleLayout img_rgbp, dt)"
    using n1 by simp_all
  from ToPyBufferInfo_buffers[OF export_nv12_example]
  have c: "\<not> spec_singleBuffer img_nv12"
    using n2 by simp
  from ToPyBufferInfo_buffers[OF export_nv12_nhwc_example]
  have d: "\<forall>p < 2. \<exists>sh st dt. inferBuffer ref_lib img_nv12 2 p = Inr (sh, st, ''HWC'', dt) \<and> length sh = 3"
    using n2 by (auto simp: numeral_2_eq_2)
  have e1: "\<exists>out. ToPyBufferInfo ref_lib img_nv12 None = Inr out \<and> length out = 2"
    using export_nv12_example by simp
  have e2: "\<exists>out. ToPyBufferInfo ref_lib img_nv12 (Some ''NHWC'') = Inr out \<and> length out = 2"
    using export_nv12_nhwc_example by simp
  from b b' have b'': "\<exists>sh st dt. inferBuffer ref_lib img_rgbp 1 0 = Inr (sh, st, ''CHW'', dt)" by simp
  from d have d0: "\<exists>sh st dt. inferBuffer ref_lib img_nv12 2 0 = Inr (sh, st, ''HWC'', dt) \<and> length sh = 3"
    and d1: "\<exists>sh st dt. inferBuffer ref_lib img_nv12 2 1 = Inr (sh, st, ''HWC'', dt) \<and> length sh = 3"
    by simp_all
  from export_rgbp_example n1 n2 a b b'' c d0 d1 e1 e2 show ?thesis by blast
qed

lemma export_down_example:
  "ToPyBufferInfo ref_lib img_2p_down None = Inl AssertionFailure"
  by (simp add: img_2p_down_def export_defs fmt_defs ref_defs Let_def upt_rec)

text \<open>
  The claim as stated fails in two places. An image of one plane with several channels
  is exported as a single buffer: for packed RGB the element type of plane 0 has three
  channels, so the condition does not hold, and the export is one HWC buffer. And the
  condition does not make a single buffer where the export does not return: for two
  equal planes of one channel, the second at the lower address, the condition holds and
  the assertion on the distance between the planes fails.
\<close>

theorem ToPyBufferInfo_single_plane_counterexample:
  "ToPyBufferInfo ref_lib img_rgb None =
     Inr [(\<lparr>bi_ptr = 4096, bi_dtype = TYPE_U8, bi_shape = [4, 6, 3], bi_strides = [32, 3, 1]\<rparr>,
           ''HWC'')] \<and>
   \<not> spec_singleBuffer img_rgb \<and>
   spec_singleBuffer img_2p_down \<and>
   ToPyBufferInfo ref_lib img_2p_down None = Inl AssertionFailure"
  by (simp add: img_rgb_def img_2p_down_def export_defs spec_singleBuffer_def fmt_defs ref_defs
        Let_def upt_rec)

lemma layout_find_nonneg: "(0 \<le> layout_find l c) = (c \<in> set l)"
  using layout_find_neg[of l c] by auto

lemma remapDims_error: "remapDims il ish ist ul lst = Inl e \<Longrightarrow> e = RuntimeError"
  by (induction ul arbitrary: lst) (auto simp: Let_def split: if_splits sum.splits)

lemma remapDims_ok:
  "remapDims il ish ist ul lst = Inr (sh, st) \<Longrightarrow>
     length sh = length ul \<and> length st = length ul \<and>
     (\<forall>j < length ul. ul ! j \<notin> set il \<longrightarrow> sh ! j = 1 \<and> st ! j = 0) \<and>
     (\<forall>j < length ul. ul ! j \<in> set il \<longrightarrow>
         sh ! j = ish ! nat (layout_find il (ul ! j)) \<and> st ! j = ist ! nat (layout_find il (ul ! j)))"
proof (induction ul arbitrary: lst sh st)
  case Nil
  then show ?case by simp
next
  case (Cons c cs)
  show ?case
  proof (cases "layout_find il c < 0")
    case True
    with Cons.prems obtain sh' st' where
      r: "remapDims il ish ist cs lst = Inr (sh', st')" and
      e: "sh = 1 # sh'" "st = 0 # st'"
      by (auto simp: Let_def split: sum.splits)
    have c: "c \<notin> set il" using True by (simp add: layout_find_neg)
    from Cons.IH[OF r] show ?thesis
      using e c by (auto simp: nth_Cons split: nat.splits)
  next
    case False
    with Cons.prems obtain sh' st' where
      r: "remapDims il ish ist cs (layout_find il c) = Inr (sh', st')" and
      e: "sh = ish ! nat (layout_find il c) # sh'" "st = ist ! nat (layout_find il c) # st'"
      by (auto simp: Let_def split: sum.splits if_splits)
    have c: "c \<in> set il" using False by (simp add: layout_find_neg)
    from Cons.IH[OF r] show ?thesis
      using e c by (auto simp: nth_Cons split: nat.splits)
  qed
qed

lemma remapDims_sorted:
  "(\<exists>sh st. remapDims il ish ist ul lst = Inr (sh, st)) =
     sorted_wrt (<) (lst # inferredPositions il ul)"
proof (induction ul arbitrary: lst)
  case Nil
  then show ?case by (simp add: inferredPositions_def)
next
  case (Cons c cs)
  show ?case
  proof (cases "layout_find il c < 0")
    case True
    have "(\<exists>sh st. remapDims il ish ist (c # cs) lst = Inr (sh, st)) =
          (\<exists>sh st. remapDims il ish ist cs lst = Inr (sh, st))"
      using True by (auto simp: Let_def split: sum.splits)
    also have "\<dots> = sorted_wrt (<) (lst # inferredPositions il cs)" by (rule Cons.IH)
    also have "inferredPositions il cs = inferredPositions il (c # cs)"
      using True by (simp add: inferredPositions_def)
    finally show ?thesis .
  next
    case False
    let ?i = "layout_find il c"
    have pos: "inferredPositions il (c # cs) = ?i # inferredPositions il cs"
      using False by (simp add: inferredPositions_def)
    show ?thesis
    proof (cases "lst \<ge> ?i")
      case True
      then have "remapDims il ish ist (c # cs) lst = Inl RuntimeError"
        using False by (simp add: Let_def)
      then show ?thesis using True pos by auto
    next
      case lt: False
      have "(\<exists>sh st. remapDims il ish ist (c # cs) lst = Inr (sh, st)) =
            (\<exists>sh st. remapDims il ish ist cs ?i = Inr (sh, st))"
        using False lt by (auto simp: Let_def split: sum.splits)
      also have "\<dots> = sorted_wrt (<) (?i # inferredPositions il cs)" by (rule Cons.IH)
      also have "\<dots> = sorted_wrt (<) (lst # ?i # inferredPositions il cs)"
        using lt by auto
      finally show ?thesis by (simp only: pos)
    qed
  qed
qed

lemma inferredPositions_nonneg: "\<forall>x \<in> set (inferredPositions il ul). 0 \<le> x"
  by (auto simp: inferredPositions_def)

lemma remapDims_start:
  "(\<exists>sh st. remapDims il ish ist ul (- 1) = Inr (sh, st)) = sorted_wrt (<) (inferredPositions il ul)"
  using remapDims_sorted[of il ish ist ul "- 1"] inferredPositions_nonneg[of il ul]
  by auto

lemma missingDim_iff:
  "missingDim ul ish il = (\<exists>i < length il. ish ! i \<ge> 2 \<and> il ! i \<notin> set ul)"
  by (auto simp: missingDim_def list_ex_iff layout_find_neg)

lemma exportBuffer_user_error:
  assumes inf: "inferBuffer lib img nb p = Inr (ish, ist, il, dt)"
      and bad: "(\<exists>i < length il. ish ! i \<ge> 2 \<and> il ! i \<notin> set ul) \<or>
                \<not> sorted_wrt (<) (inferredPositions il ul)"
  shows "exportBuffer lib img (Some ul) nb p = Inl RuntimeError"
proof (cases "missingDim ul ish il")
  case True
  with inf show ?thesis by (simp add: exportBuffer_def)
next
  case False
  with bad have "\<not> sorted_wrt (<) (inferredPositions il ul)"
    unfolding missingDim_iff by blast
  then have "\<not> (\<exists>sh st. remapDims il ish ist ul (- 1) = Inr (sh, st))"
    by (simp add: remapDims_start)
  then obtain e where "remapDims il ish ist ul (- 1) = Inl e"
    by (cases "remapDims il ish ist ul (- 1)") auto
  then have "remapDims il ish ist ul (- 1) = Inl RuntimeError"
    using remapDims_error by blast
  with inf False show ?thesis by (simp add: exportBuffer_def)
qed

lemma exportBuffer_user_ok:
  assumes inf: "inferBuffer lib img nb p = Inr (ish, ist, il, dt)"
      and ok: "exportBuffer lib img (Some ul) nb p = Inr b"
  shows "snd b = ul \<and> length (bi_shape (fst b)) = length ul \<and>
         length (bi_strides (fst b)) = length ul \<and>
         (\<forall>j < length ul. ul ! j \<notin> set il \<longrightarrow>
            bi_shape (fst b) ! j = 1 \<and> bi_strides (fst b) ! j = 0)"
proof -
  from inf ok obtain sh st where
    r: "remapDims il ish ist ul (- 1) = Inr (sh, st)" and
    b: "b = (\<lparr>bi_ptr = pl_basePtr (img_planes img ! p), bi_dtype = dt,
              bi_shape = sh, bi_strides = st\<rparr>, ul)"
    by (auto simp: exportBuffer_def split: if_splits sum.splits)
  from remapDims_ok[OF r] show ?thesis by (simp add: b)
qed

lemma ToPyBufferInfo_fails:
  assumes ne: "img_planes img \<noteq> []" and p: "p < numBuffersOf img"
      and e: "exportBuffer lib img ul (numBuffersOf img) p = Inl err"
  shows "isl (ToPyBufferInfo lib img ul)"
proof -
  have "p \<in> set [0 ..< numBuffersOf img]" using p by simp
  from exportLoop_fails[OF this e] show ?thesis
    using ne by (simp add: ToPyBufferInfo_def)
qed

text \<open>
  C6. With a requested layout, for every buffer of the export whose shape, strides and
  layout are inferred: if an inferred axis of extent 2 or more is not in the requested
  layout, the buffer is refused with a runtime error and the export fails; if the export
  returns, the buffer has the requested layout, and every axis of it that the inferred
  layout does not have has extent 1 and stride 0; and if the requested layout does not
  name the inferred axes it has in strictly ascending inferred position, the buffer is
  refused with a runtime error and the export fails.
\<close>

theorem ToPyBufferInfo_userLayout:
  assumes ne: "img_planes img \<noteq> []" and p: "p < numBuffersOf img"
      and inf: "inferBuffer lib img (numBuffersOf img) p = Inr (ish, ist, il, dt)"
  shows "((\<exists>i < length il. ish ! i \<ge> 2 \<and> il ! i \<notin> set ul) \<longrightarrow>
            exportBuffer lib img (Some ul) (numBuffersOf img) p = Inl RuntimeError \<and>
            isl (ToPyBufferInfo lib img (Some ul))) \<and>
         (\<forall>out. ToPyBufferInfo lib img (Some ul) = Inr out \<longrightarrow>
            snd (out ! p) = ul \<and> length (bi_shape (fst (out ! p))) = length ul \<and>
            length (bi_strides (fst (out ! p))) = length ul \<and>
            (\<forall>j < length ul. ul ! j \<notin> set il \<longrightarrow>
               bi_shape (fst (out ! p)) ! j = 1 \<and> bi_strides (fst (out ! p)) ! j = 0)) \<and>
         (\<not> sorted_wrt (<) (inferredPositions il ul) \<longrightarrow>
            exportBuffer lib img (Some ul) (numBuffersOf img) p = Inl RuntimeError \<and>
            isl (ToPyBufferInfo lib img (Some ul)))"
proof (intro conjI allI impI)
  assume m: "\<exists>i < length il. ish ! i \<ge> 2 \<and> il ! i \<notin> set ul"
  then show e: "exportBuffer lib img (Some ul) (numBuffersOf img) p = Inl RuntimeError"
    using exportBuffer_user_error[OF inf] by blast
  then show "isl (ToPyBufferInfo lib img (Some ul))"
    by (rule ToPyBufferInfo_fails[OF ne p])
next
  assume s: "\<not> sorted_wrt (<) (inferredPositions il ul)"
  then show e: "exportBuffer lib img (Some ul) (numBuffersOf img) p = Inl RuntimeError"
    using exportBuffer_user_error[OF inf] by blast
  then show "isl (ToPyBufferInfo lib img (Some ul))"
    by (rule ToPyBufferInfo_fails[OF ne p])
next
  fix out
  assume ok: "ToPyBufferInfo lib img (Some ul) = Inr out"
  from ToPyBufferInfo_nth[OF ok ne] p
  have b: "exportBuffer lib img (Some ul) (numBuffersOf img) p = Inr (out ! p)" by simp
  note r = exportBuffer_user_ok[OF inf b]
  show "snd (out ! p) = ul" using r by simp
  show "length (bi_shape (fst (out ! p))) = length ul" using r by simp
  show "length (bi_strides (fst (out ! p))) = length ul" using r by simp
  fix j assume "j < length ul" "ul ! j \<notin> set il"
  then show "bi_shape (fst (out ! p)) ! j = 1" "bi_strides (fst (out ! p)) ! j = 0"
    using r by simp_all
qed

lemma infer_rgb_buffer_example:
  "inferBuffer ref_lib img_rgb (numBuffersOf img_rgb) 0 =
     Inr ([4, 6, 3], [32, 3, 1], ''HWC'', TYPE_U8)"
  by (simp add: img_rgb_def export_defs fmt_defs ref_defs Let_def)

lemma export_rgb_nhwc_example:
  "ToPyBufferInfo ref_lib img_rgb (Some ''NHWC'') =
     Inr [(\<lparr>bi_ptr = 4096, bi_dtype = TYPE_U8, bi_shape = [1, 4, 6, 3],
             bi_strides = [0, 32, 3, 1]\<rparr>, ''NHWC'')]"
  by (simp add: img_rgb_def export_defs fmt_defs ref_defs Let_def)

theorem ToPyBufferInfo_userLayout_witness:
  "img_planes img_rgb \<noteq> [] \<and> 0 < numBuffersOf img_rgb \<and>
   inferBuffer ref_lib img_rgb (numBuffersOf img_rgb) 0 =
     Inr ([4, 6, 3], [32, 3, 1], ''HWC'', TYPE_U8) \<and>
   isl (ToPyBufferInfo ref_lib img_rgb (Some ''HW'')) \<and>
   isl (ToPyBufferInfo ref_lib img_rgb (Some ''CHW'')) \<and>
   (\<exists>out. ToPyBufferInfo ref_lib img_rgb (Some ''NHWC'') = Inr out \<and> snd (out ! 0) = ''NHWC'' \<and>
      bi_shape (fst (out ! 0)) ! 0 = 1 \<and> bi_strides (fst (out ! 0)) ! 0 = 0)"
proof -
  have ne: "img_planes img_rgb \<noteq> []" by (simp add: img_rgb_def)
  have p: "0 < numBuffersOf img_rgb" by (simp add: img_rgb_def numBuffersOf_def)
  note T = ToPyBufferInfo_userLayout[OF ne p infer_rgb_buffer_example]
  have missing: "\<exists>i < length ''HWC''. [4, 6, 3::int] ! i \<ge> 2 \<and> ''HWC'' ! i \<notin> set ''HW''"
    by (rule exI[of _ 2]) simp
  have hw: "isl (ToPyBufferInfo ref_lib img_rgb (Some ''HW''))"
    using T[of "''HW''"] missing by blast
  have order: "\<not> sorted_wrt (<) (inferredPositions ''HWC'' ''CHW'')"
    by (simp add: inferredPositions_def)
  have chw: "isl (ToPyBufferInfo ref_lib img_rgb (Some ''CHW''))"
    using T[of "''CHW''"] order by blast
  have n: "''NHWC'' ! 0 \<notin> set ''HWC''" and l: "0 < length ''NHWC''" by simp_all
  have nhwc: "\<exists>out. ToPyBufferInfo ref_lib img_rgb (Some ''NHWC'') = Inr out \<and>
      snd (out ! 0) = ''NHWC'' \<and>
      bi_shape (fst (out ! 0)) ! 0 = 1 \<and> bi_strides (fst (out ! 0)) ! 0 = 0"
    using T[of "''NHWC''"] export_rgb_nhwc_example n l by blast
  show ?thesis using ne p infer_rgb_buffer_example hw chw nhwc by blast
qed

section \<open>Properties of Image::setWrapData\<close>

lemma deviceCheckLoop_iff:
  "deviceCheckLoop b0 bs = (if list_ex (otherDevice b0) bs then Some RuntimeError else None)"
  by (induction bs) auto

text \<open>
  C10. On an image that is a wrapper: with two or more buffers, one of which after the
  first is on another device (type or id) than the first, \<open>setWrapData\<close> throws a runtime
  error and the wrapped object and the wrapped image data are those from before the call;
  with a single buffer it returns, whatever the buffer's device, and the wrapped object is
  that buffer.
\<close>

theorem setWrapData_devices:
  assumes "m_wrapData this = Some wd"
  shows "(length bufs \<ge> 2 \<and> list_ex (otherDevice (bufs ! 0)) (tl bufs) \<longrightarrow>
            snd (setWrapData this bufs imgData) = Some RuntimeError \<and>
            wrappedObj (fst (setWrapData this bufs imgData)) = wrappedObj this \<and>
            m_impl (fst (setWrapData this bufs imgData)) = m_impl this) \<and>
         (length bufs = 1 \<longrightarrow>
            snd (setWrapData this bufs imgData) = None \<and>
            wrappedObj (fst (setWrapData this bufs imgData)) = Some (PyBuffer (bufs ! 0)) \<and>
            m_impl (fst (setWrapData this bufs imgData)) = Some imgData)"
  using assms
  by (auto simp: setWrapData_def wrappedObj_def deviceCheckLoop_iff Let_def)

theorem setWrapData_devices_witness:
  "m_wrapData freshWrapper = Some \<lparr>devType = 0, obj = PyNone\<rparr> \<and>
   snd (setWrapData freshWrapper [bufferOn 2 0 4096, bufferOn 2 1 8192] img_nv12) = Some RuntimeError \<and>
   wrappedObj (fst (setWrapData freshWrapper [bufferOn 2 0 4096, bufferOn 2 1 8192] img_nv12)) =
     Some PyNone \<and>
   snd (setWrapData freshWrapper [bufferOn 1 7 4096] img_gray) = None \<and>
   wrappedObj (fst (setWrapData freshWrapper [bufferOn 1 7 4096] img_gray)) =
     Some (PyBuffer (bufferOn 1 7 4096))"
proof -
  have w: "m_wrapData freshWrapper = Some \<lparr>devType = 0, obj = PyNone\<rparr>"
    by (simp add: freshWrapper_def)
  have two: "length [bufferOn 2 0 4096, bufferOn 2 1 8192] \<ge> 2 \<and>
      list_ex (otherDevice ([bufferOn 2 0 4096, bufferOn 2 1 8192] ! 0))
        (tl [bufferOn 2 0 4096, bufferOn 2 1 8192])"
    by (simp add: otherDevice_def bufferOn_def)
  have old: "wrappedObj freshWrapper = Some PyNone"
    by (simp add: wrappedObj_def freshWrapper_def)
  from setWrapData_devices[OF w, of "[bufferOn 2 0 4096, bufferOn 2 1 8192]" img_nv12] two old
  have a: "snd (setWrapData freshWrapper [bufferOn 2 0 4096, bufferOn 2 1 8192] img_nv12) =
             Some RuntimeError"
    and b: "wrappedObj (fst (setWrapData freshWrapper [bufferOn 2 0 4096, bufferOn 2 1 8192] img_nv12)) =
             Some PyNone"
    by simp_all
  from setWrapData_devices[OF w, of "[bufferOn 1 7 4096]" img_gray]
  have c: "snd (setWrapData freshWrapper [bufferOn 1 7 4096] img_gray) = None"
    and d: "wrappedObj (fst (setWrapData freshWrapper [bufferOn 1 7 4096] img_gray)) =
             Some (PyBuffer (bufferOn 1 7 4096))"
    by simp_all
  from w a b c d show ?thesis by simp
qed

section \<open>The round trip of export and ingestion\<close>





























































lemmas rt_defs = wellFormedImage_def channelFirstPacked_def uniformBytes_def
  planeElemBytes_def bytePacking_def canonicalSwizzle_def ownPlaneTypes_def totalChannels_def
  numBuffersOf_def planeDiffers_def pitchDiffers_def in32_def in64_def










lemma toDLTensor_u8:
  "toDLTensor (\<lparr>bi_ptr = ptr, bi_dtype = TYPE_U8, bi_shape = sh, bi_strides = st\<rparr>, l) =
     Inr \<lparr>t_data = ptr, t_device = cuda0, t_ndim = int (length sh), t_dtype = dl_uint8,
          t_shape = sh, t_strides = st\<rparr>"
  by (simp add: toDLTensor_def toDLDataType_def kindCode_def fmt_defs ref_defs Let_def list_ex_iff
        map_idI)




text \<open>
  Three planes in one allocation, without row padding, are exported as one CHW buffer.
  Its ingestion is refused: the running channel count of \<open>ExtractBufferImageInfo\<close> adds
  \<open>numPlanes * numChannels\<close>, which is 9 for this buffer, where
  \<open>FillNVCVImageBufferStrided\<close> gives each of its planes one channel. The statement of
  the round trip above says nothing on such images.
\<close>

lemma reingest_three_planes_example:
  "wellFormedImage img_rgbp_packed \<and>
   ToPyBufferInfo ref_lib img_rgbp_packed None =
     Inr [(\<lparr>bi_ptr = 4096, bi_dtype = TYPE_U8, bi_shape = [3, 4, 6], bi_strides = [24, 6, 1]\<rparr>,
           ''CHW'')] \<and>
   reingest ref_lib img_rgbp_packed = Inl InvalidArgument"
proof -
  have wf: "wellFormedImage img_rgbp_packed"
    by (simp add: img_rgbp_packed_def FMT_RGB8p_def rt_defs fmt_defs ref_defs Let_def upt_rec)
  have out: "ToPyBufferInfo ref_lib img_rgbp_packed None =
     Inr [(\<lparr>bi_ptr = 4096, bi_dtype = TYPE_U8, bi_shape = [3, 4, 6], bi_strides = [24, 6, 1]\<rparr>,
           ''CHW'')]"
    by (simp add: img_rgbp_packed_def FMT_RGB8p_def export_defs fmt_defs ref_defs Let_def upt_rec)
  have f: "FillNVCVImageBufferStrided ref_lib
       [\<lparr>t_data = 4096, t_device = cuda0, t_ndim = 3, t_dtype = dl_uint8,
          t_shape = [3, 4, 6], t_strides = [24, 6, 1]\<rparr>] FMT_RGB8p = Inl InvalidArgument"
    by (simp add: FMT_RGB8p_def ingest_defs layout_defs fmt_defs ref_defs Let_def upt_rec)
  have r: "reingest ref_lib img_rgbp_packed = Inl InvalidArgument"
    using f by (simp add: reingest_def out toDLTensor_u8) (simp add: img_rgbp_packed_def)
  from wf out r show ?thesis by simp
qed

end
